theory Spec2Isabelle
  imports Main "HOL-Library.AList" "HOL-Library.Sublist"
begin

section \<open>Python values, documents and errors\<close>

text \<open>
  Documents fetched from the knowledge graph are parsed JSON-LD. A Python \<^verbatim>\<open>dict\<close> with
  string keys is an association list (looked up with \<open>map_of\<close>), \<^verbatim>\<open>None\<close> is \<open>JNull\<close>.
  Floating point numbers are left out.
\<close>

datatype json =
    JNull
  | JBool bool
  | JInt int
  | JStr string
  | JList "json list"
  | JDict "(string \<times> json) list"

text \<open>The exceptions raised in \<^verbatim>\<open>base.py\<close>, by Python itself or by the transport.\<close>

datatype error =
    TypeError
  | ValueError
  | KeyError
  | AttributeError
  | AssertionError
  | ResourceExistsError
  | TransportError string

text \<open>Python truthiness (\<^verbatim>\<open>if x:\<close>, \<^verbatim>\<open>x or y\<close>) of a document value.\<close>

fun truthy :: "json \<Rightarrow> bool" where
  "truthy JNull = False"
| "truthy (JBool b) = b"
| "truthy (JInt i) = (i \<noteq> 0)"
| "truthy (JStr s) = (s \<noteq> [])"
| "truthy (JList xs) = (xs \<noteq> [])"
| "truthy (JDict kvs) = (kvs \<noteq> [])"

text \<open>
  \<^verbatim>\<open>d[k]\<close> with a string key \<open>k\<close>: a dict raises KeyError when the key is missing; a
  string, a list, a number or None raises TypeError.
\<close>

fun py_getitem :: "json \<Rightarrow> string \<Rightarrow> error + json" where
  "py_getitem (JDict kvs) k = (case map_of kvs k of None \<Rightarrow> Inl KeyError | Some v \<Rightarrow> Inr v)"
| "py_getitem _ k = Inl TypeError"

text \<open>
  Iterating a document value (\<^verbatim>\<open>for item in data\<close>, \<^verbatim>\<open>list(data)\<close>): a list gives its
  elements, a string its characters, a dict its keys; anything else raises TypeError.
\<close>

fun py_iter :: "json \<Rightarrow> error + json list" where
  "py_iter (JList xs) = Inr xs"
| "py_iter (JStr s) = Inr (map (\<lambda>c. JStr [c]) s)"
| "py_iter (JDict kvs) = Inr (map (\<lambda>kv. JStr (fst kv)) kvs)"
| "py_iter _ = Inl TypeError"

text \<open>
  Keys of the identity cache. Lists and dicts are unhashable (TypeError); \<^verbatim>\<open>True == 1\<close>
  and \<^verbatim>\<open>False == 0\<close> hash alike, so a boolean key is the same key as that integer.
\<close>

fun hashable :: "json \<Rightarrow> bool" where
  "hashable (JList xs) = False"
| "hashable (JDict kvs) = False"
| "hashable _ = True"

fun key_of :: "json \<Rightarrow> json" where
  "key_of (JBool b) = JInt (if b then 1 else 0)"
| "key_of j = j"

section \<open>Class descriptors\<close>

text \<open>
  A concrete subclass of \<^verbatim>\<open>KGObject\<close>: its name, the class attributes \<^verbatim>\<open>path\<close> and
  \<^verbatim>\<open>type\<close>, and the schema \<^verbatim>\<open>property_names\<close> read by \<^verbatim>\<open>KGObject.__init__\<close>.
  \<^verbatim>\<open>KGObject\<close> declares no \<^verbatim>\<open>property_names\<close>; a concrete type may declare one, and the
  field is \<open>None\<close> for a type that declares none.
\<close>

record kgclass =
  cls_name :: string
  cls_path :: string
  cls_type :: json
  property_names :: "string list option"

text \<open>
  A subclass of \<^verbatim>\<open>OntologyTerm\<close>; \<^verbatim>\<open>iri_map\<close> is the label-to-IRI table of the subclass,
  \<open>None\<close> when the class declares none (as \<^verbatim>\<open>OntologyTerm\<close> itself).
\<close>

record termclass =
  term_name :: string
  iri_map :: "(string \<times> json) list option"

text \<open>What \<^verbatim>\<open>issubclass(cls, OntologyTerm)\<close> and \<^verbatim>\<open>issubclass(cls, KGObject)\<close> tell apart.\<close>

datatype pyclass =
    OntologyTermClass termclass
  | KGObjectClass kgclass
  | OtherClass string

section \<open>OntologyTerm\<close>

record ontology_term =
  term_cls :: termclass
  label :: json
  iri :: json

text \<open>\<^verbatim>\<open>self.iri_map[label]\<close>: the table has string keys.\<close>

definition iri_lookup :: "termclass \<Rightarrow> json \<Rightarrow> error + json" where
  "iri_lookup cls lbl =
     (case iri_map cls of
        None \<Rightarrow> Inl AttributeError
      | Some m \<Rightarrow>
          (if \<not> hashable lbl then Inl TypeError
           else case lbl of
                  JStr s \<Rightarrow> (case map_of m s of None \<Rightarrow> Inl KeyError | Some v \<Rightarrow> Inr v)
                | _ \<Rightarrow> Inl KeyError))"

text \<open>\<^verbatim>\<open>OntologyTerm.__init__\<close>: \<^verbatim>\<open>self.iri = iri or self.iri_map[label]\<close>.\<close>

definition OntologyTerm_init :: "termclass \<Rightarrow> json \<Rightarrow> json \<Rightarrow> error + ontology_term" where
  "OntologyTerm_init cls lbl i =
     (if truthy i then Inr \<lparr>term_cls = cls, label = lbl, iri = i\<rparr>
      else case iri_lookup cls lbl of
             Inl e \<Rightarrow> Inl e
           | Inr v \<Rightarrow> Inr \<lparr>term_cls = cls, label = lbl, iri = v\<rparr>)"

definition to_jsonld :: "ontology_term \<Rightarrow> json" where
  "to_jsonld t = JDict [(''@id'', iri t), (''label'', label t)]"

text \<open>\<^verbatim>\<open>from_jsonld\<close>: \<open>Inr None\<close> is the Python result \<^verbatim>\<open>None\<close>.\<close>

definition from_jsonld :: "termclass \<Rightarrow> json \<Rightarrow> error + ontology_term option" where
  "from_jsonld cls data =
     (if data = JNull then Inr None
      else case py_getitem data ''label'' of
             Inl e \<Rightarrow> Inl e
           | Inr lbl \<Rightarrow>
               (case py_getitem data ''@id'' of
                  Inl e \<Rightarrow> Inl e
                | Inr i \<Rightarrow>
                    (case OntologyTerm_init cls lbl i of
                       Inl e \<Rightarrow> Inl e
                     | Inr t \<Rightarrow> Inr (Some t))))"

text \<open>Decoding a fragment and encoding the result again.\<close>

definition decode_encode :: "termclass \<Rightarrow> json \<Rightarrow> error + json option" where
  "decode_encode cls data =
     (case from_jsonld cls data of
        Inl e \<Rightarrow> Inl e
      | Inr None \<Rightarrow> Inr None
      | Inr (Some t) \<Rightarrow> Inr (Some (to_jsonld t)))"

section \<open>KGProxy and run-time values\<close>

text \<open>
  A \<^verbatim>\<open>KGProxy\<close> after construction: the class it refers to and the identifier. Objects
  of \<^verbatim>\<open>KGObject\<close> live in a heap and are referred to by their address.
\<close>

record kgproxy =
  proxy_cls :: kgclass
  proxy_id :: json

datatype pyval =
    PJson json
  | PTerm ontology_term
  | PProxy kgproxy
  | PObj nat
  | PSeq "pyval list"

text \<open>
  \<^verbatim>\<open>KGProxy.__init__\<close> and \<^verbatim>\<open>KGQuery.__init__\<close> accept a class or the name of a class; a
  name goes through \<^verbatim>\<open>lookup\<close>, which raises KeyError for a name that was never
  registered.
\<close>

datatype class_ref = ByName string | ByClass kgclass

definition register_class :: "kgclass \<Rightarrow> (string \<rightharpoonup> kgclass) \<Rightarrow> (string \<rightharpoonup> kgclass)" where
  "register_class target_class registry = registry(cls_name target_class \<mapsto> target_class)"

definition lookup :: "(string \<rightharpoonup> kgclass) \<Rightarrow> string \<Rightarrow> error + kgclass" where
  "lookup registry class_name =
     (case registry class_name of None \<Rightarrow> Inl KeyError | Some c \<Rightarrow> Inr c)"

definition KGProxy_init :: "(string \<rightharpoonup> kgclass) \<Rightarrow> class_ref \<Rightarrow> json \<Rightarrow> error + kgproxy" where
  "KGProxy_init registry cls uri =
     (case cls of
        ByName n \<Rightarrow>
          (case lookup registry n of
             Inl e \<Rightarrow> Inl e
           | Inr c \<Rightarrow> Inr \<lparr>proxy_cls = c, proxy_id = uri\<rparr>)
      | ByClass c \<Rightarrow> Inr \<lparr>proxy_cls = c, proxy_id = uri\<rparr>)"

section \<open>build_kg_object and as_list\<close>

text \<open>
  One round of the loop \<^verbatim>\<open>for item in data\<close> of \<^verbatim>\<open>build_kg_object\<close>. The proxy is built
  from the class itself, so \<^verbatim>\<open>KGProxy.__init__\<close> looks nothing up.
\<close>

definition build_item :: "pyclass \<Rightarrow> json \<Rightarrow> error + pyval" where
  "build_item cls item =
     (case cls of
        OntologyTermClass tc \<Rightarrow>
          (case from_jsonld tc item of
             Inl e \<Rightarrow> Inl e
           | Inr None \<Rightarrow> Inr (PJson JNull)
           | Inr (Some t) \<Rightarrow> Inr (PTerm t))
      | KGObjectClass kc \<Rightarrow>
          (case py_getitem item ''@id'' of
             Inl e \<Rightarrow> Inl e
           | Inr i \<Rightarrow> Inr (PProxy \<lparr>proxy_cls = kc, proxy_id = i\<rparr>))
      | OtherClass n \<Rightarrow> Inl ValueError)"

fun build_items :: "pyclass \<Rightarrow> json list \<Rightarrow> error + pyval list" where
  "build_items cls [] = Inr []"
| "build_items cls (item # rest) =
     (case build_item cls item of
        Inl e \<Rightarrow> Inl e
      | Inr obj \<Rightarrow>
          (case build_items cls rest of
             Inl e \<Rightarrow> Inl e
           | Inr objects \<Rightarrow> Inr (obj # objects)))"

text \<open>
  The first half of \<^verbatim>\<open>build_kg_object\<close>: the items to convert. A list is taken as it
  is; a dict with the key \<^verbatim>\<open>@list\<close> must have no other key and is replaced by the value
  under that key; any other dict is one item.
\<close>

definition items_of :: "json \<Rightarrow> error + json list" where
  "items_of data =
     (case data of
        JList xs \<Rightarrow> Inr xs
      | JDict kvs \<Rightarrow>
          (case map_of kvs ''@list'' of
             Some inner \<Rightarrow> (if length kvs = 1 then py_iter inner else Inl AssertionError)
           | None \<Rightarrow> Inr [data])
      | _ \<Rightarrow> Inl ValueError)"

definition build_kg_object :: "pyclass \<Rightarrow> json \<Rightarrow> error + pyval" where
  "build_kg_object cls data =
     (if data = JNull then Inr (PJson JNull)
      else case items_of data of
             Inl e \<Rightarrow> Inl e
           | Inr items \<Rightarrow>
               (case build_items cls items of
                  Inl e \<Rightarrow> Inl e
                | Inr objects \<Rightarrow>
                    (if length objects = 1 then Inr (hd objects) else Inr (PSeq objects))))"

text \<open>Python's \<^verbatim>\<open>list(obj)\<close>: TypeError when \<open>obj\<close> is not iterable.\<close>

fun py_list :: "pyval \<Rightarrow> error + pyval list" where
  "py_list (PJson j) = (case py_iter j of Inl e \<Rightarrow> Inl e | Inr xs \<Rightarrow> Inr (map PJson xs))"
| "py_list (PSeq xs) = Inr xs"
| "py_list _ = Inl TypeError"

fun iterable :: "pyval \<Rightarrow> bool" where
  "iterable (PJson (JList xs)) = True"
| "iterable (PJson (JStr s)) = True"
| "iterable (PJson (JDict kvs)) = True"
| "iterable (PSeq xs) = True"
| "iterable _ = False"

text \<open>\<^verbatim>\<open>as_list\<close>: only TypeError is caught.\<close>

definition as_list :: "pyval \<Rightarrow> error + pyval list" where
  "as_list obj =
     (case py_list obj of
        Inr L \<Rightarrow> Inr L
      | Inl TypeError \<Rightarrow> Inr [obj]
      | Inl e \<Rightarrow> Inl e)"

section \<open>Raw instances, objects and the transport\<close>

text \<open>
  A raw instance returned by the transport; \<^verbatim>\<open>base.py\<close> reads its \<^verbatim>\<open>data\<close>, a
  string-keyed mapping.
\<close>

record raw_instance =
  inst_data :: "(string \<times> json) list"

text \<open>\<^verbatim>\<open>instance.data["@id"]\<close>.\<close>

definition data_id :: "raw_instance \<Rightarrow> error + json" where
  "data_id inst = py_getitem (JDict (inst_data inst)) ''@id''"

text \<open>
  A \<^verbatim>\<open>KGObject\<close>: its class, \<^verbatim>\<open>self.id\<close> (\<open>JNull\<close> for None), \<^verbatim>\<open>self.instance\<close> and the
  attributes set from the keyword properties.
\<close>

record kgobject =
  obj_cls :: kgclass
  obj_id :: json
  obj_instance :: "raw_instance option"
  obj_attrs :: "(string \<times> pyval) list"

text \<open>The calls a client can issue to the transport, with their arguments.\<close>

datatype call =
    FilterQuery string "(string \<times> pyval) list" json
  | CreateNewInstance string json
  | UpdateInstance "raw_instance option"
  | InstanceFromFullUri json

text \<open>
  The transport is outside \<^verbatim>\<open>base.py\<close> and is a parameter: each method answers from the
  calls issued so far and its arguments, with a raw instance (or a list of them) or with
  an exception.
\<close>

record client =
  filter_query :: "call list \<Rightarrow> string \<Rightarrow> (string \<times> pyval) list \<Rightarrow> json \<Rightarrow> error + raw_instance list"
  create_new_instance :: "call list \<Rightarrow> string \<Rightarrow> json \<Rightarrow> error + raw_instance"
  update_instance :: "call list \<Rightarrow> raw_instance option \<Rightarrow> error + raw_instance"
  instance_from_full_uri :: "call list \<Rightarrow> json \<Rightarrow> error + raw_instance"

text \<open>
  The state of the process: the objects built so far (an object's address is its index),
  the identity cache \<^verbatim>\<open>KGObject.cache\<close> and the calls issued to the transport.
\<close>

record world =
  heap :: "kgobject list"
  kg_cache :: "json \<rightharpoonup> nat"
  calls :: "call list"

definition call_filter_query ::
  "client \<Rightarrow> string \<Rightarrow> (string \<times> pyval) list \<Rightarrow> json \<Rightarrow> world \<Rightarrow> (error + raw_instance list) \<times> world" where
  "call_filter_query c path filt ctx w =
     (filter_query c (calls w) path filt ctx, w\<lparr>calls := calls w @ [FilterQuery path filt ctx]\<rparr>)"

definition call_create_new_instance ::
  "client \<Rightarrow> string \<Rightarrow> json \<Rightarrow> world \<Rightarrow> (error + raw_instance) \<times> world" where
  "call_create_new_instance c path data w =
     (create_new_instance c (calls w) path data, w\<lparr>calls := calls w @ [CreateNewInstance path data]\<rparr>)"

definition call_update_instance ::
  "client \<Rightarrow> raw_instance option \<Rightarrow> world \<Rightarrow> (error + raw_instance) \<times> world" where
  "call_update_instance c inst w =
     (update_instance c (calls w) inst, w\<lparr>calls := calls w @ [UpdateInstance inst]\<rparr>)"


section \<open>KGObject\<close>

text \<open>
  The loop of \<^verbatim>\<open>KGObject.__init__\<close> over the keyword properties. Each round reads
  \<^verbatim>\<open>self.property_names\<close> first: for a type that declares none this raises AttributeError,
  whatever the keyword is. Without keywords the attribute is never read.
\<close>

fun set_properties ::
  "string list option \<Rightarrow> (string \<times> pyval) list \<Rightarrow> (string \<times> pyval) list \<Rightarrow>
     error + (string \<times> pyval) list" where
  "set_properties names [] attrs = Inr attrs"
| "set_properties None ((key, val) # rest) attrs = Inl AttributeError"
| "set_properties (Some names) ((key, val) # rest) attrs =
     (if key \<notin> set names then Inl TypeError
      else set_properties (Some names) rest (AList.update key val attrs))"

definition KGObject_init ::
  "kgclass \<Rightarrow> json \<Rightarrow> raw_instance option \<Rightarrow> (string \<times> pyval) list \<Rightarrow> error + kgobject" where
  "KGObject_init cls i inst properties =
     (case set_properties (property_names cls) properties [] of
        Inl e \<Rightarrow> Inl e
      | Inr attrs \<Rightarrow> Inr \<lparr>obj_cls = cls, obj_id = i, obj_instance = inst, obj_attrs = attrs\<rparr>)"

text \<open>
  The call \<^verbatim>\<open>cls(id=..., instance=..., **properties)\<close>: the object enters the heap when
  the constructor returns, and only then.
\<close>

definition KGObject_new ::
  "kgclass \<Rightarrow> json \<Rightarrow> raw_instance option \<Rightarrow> (string \<times> pyval) list \<Rightarrow> world \<Rightarrow> (error + nat) \<times> world" where
  "KGObject_new cls i inst properties w =
     (case KGObject_init cls i inst properties of
        Inl e \<Rightarrow> (Inl e, w)
      | Inr obj \<Rightarrow> (Inr (length (heap w)), w\<lparr>heap := heap w @ [obj]\<rparr>))"

text \<open>
  \<^verbatim>\<open>KGObject.exists\<close> on the object at address \<open>self\<close>. The context handed to the
  transport is a one-element tuple (the source line ends in a comma).
\<close>

definition name_filter :: "pyval \<Rightarrow> (string \<times> pyval) list" where
  "name_filter name =
     [(''path'', PJson (JStr ''schema:name'')), (''op'', PJson (JStr ''eq'')), (''value'', name)]"

definition name_context :: json where
  "name_context = JList [JDict [(''schema'', JStr ''http://schema.org/'')]]"

definition KGObject_exists :: "client \<Rightarrow> nat \<Rightarrow> world \<Rightarrow> (error + bool) \<times> world" where
  "KGObject_exists c self w =
     (if truthy (obj_id (heap w ! self)) then (Inr True, w)
      else case map_of (obj_attrs (heap w ! self)) ''name'' of
             None \<Rightarrow> (Inl AttributeError, w)
           | Some name \<Rightarrow>
               (case call_filter_query c (cls_path (obj_cls (heap w ! self)))
                       (name_filter name) name_context w of
                  (Inl e, w1) \<Rightarrow> (Inl e, w1)
                | (Inr [], w1) \<Rightarrow> (Inr False, w1)
                | (Inr (r # rs), w1) \<Rightarrow>
                    (case data_id r of
                       Inl e \<Rightarrow> (Inl e, w1)
                     | Inr i \<Rightarrow>
                         (Inr True,
                          w1\<lparr>heap := (heap w1)[self := (heap w1 ! self)\<lparr>obj_id := i\<rparr>]\<rparr>))))"

text \<open>
  \<^verbatim>\<open>KGObject._save\<close> on the object at address \<open>self\<close>. The messages sent to the logger
  are left out; a raw instance is taken to have the attribute \<^verbatim>\<open>id\<close> that the message of
  the update branch reads.
\<close>

definition KGObject_save :: "client \<Rightarrow> nat \<Rightarrow> json \<Rightarrow> bool \<Rightarrow> world \<Rightarrow> (error + unit) \<times> world" where
  "KGObject_save c self data exists_ok w =
     (if truthy (obj_id (heap w ! self)) then
        (case call_update_instance c (obj_instance (heap w ! self)) w of
           (Inl e, w1) \<Rightarrow> (Inl e, w1)
         | (Inr inst, w1) \<Rightarrow>
             (Inr (), w1\<lparr>heap := (heap w1)[self := (heap w1 ! self)\<lparr>obj_instance := Some inst\<rparr>]\<rparr>))
      else
        (case KGObject_exists c self w of
           (Inl e, w1) \<Rightarrow> (Inl e, w1)
         | (Inr True, w1) \<Rightarrow>
             (if exists_ok then (Inr (), w1) else (Inl ResourceExistsError, w1))
         | (Inr False, w1) \<Rightarrow>
             (case call_create_new_instance c (cls_path (obj_cls (heap w1 ! self))) data w1 of
                (Inl e, w2) \<Rightarrow> (Inl e, w2)
              | (Inr inst, w2) \<Rightarrow>
                  (case data_id inst of
                     Inl e \<Rightarrow> (Inl e, w2)
                   | Inr i \<Rightarrow>
                       (let w3 = w2\<lparr>heap := (heap w2)
                                      [self := (heap w2 ! self)\<lparr>obj_id := i, obj_instance := Some inst\<rparr>]\<rparr>
                        in if \<not> hashable i then (Inl TypeError, w3)
                           else (Inr (), w3\<lparr>kg_cache := (kg_cache w3)(key_of i \<mapsto> self)\<rparr>))))))"

section \<open>The caching decorator, KGProxy.resolve and KGQuery.resolve\<close>

text \<open>
  \<^verbatim>\<open>cache(f)\<close>: \<open>f\<close> is the undecorated \<^verbatim>\<open>from_kg_instance\<close> of a class, which builds an
  object from a raw instance (no factory of the repository uses its \<^verbatim>\<open>client\<close>
  argument).
\<close>

definition cache ::
  "(kgclass \<Rightarrow> raw_instance \<Rightarrow> error + kgobject) \<Rightarrow> kgclass \<Rightarrow> raw_instance \<Rightarrow> world \<Rightarrow> (error + nat) \<times> world" where
  "cache f cls inst w =
     (case data_id inst of
        Inl e \<Rightarrow> (Inl e, w)
      | Inr i \<Rightarrow>
          (if \<not> hashable i then (Inl TypeError, w)
           else case kg_cache w (key_of i) of
                  Some a \<Rightarrow> (Inr a, w)
                | None \<Rightarrow>
                    (case f cls inst of
                       Inl e \<Rightarrow> (Inl e, w)
                     | Inr obj \<Rightarrow>
                         (let a = length (heap w); w1 = w\<lparr>heap := heap w @ [obj]\<rparr>
                          in if \<not> hashable (obj_id obj) then (Inl TypeError, w1)
                             else (Inr a, w1\<lparr>kg_cache := (kg_cache w1)(key_of (obj_id obj) \<mapsto> a)\<rparr>)))))"



record kgquery =
  query_cls :: kgclass
  query_filter :: "(string \<times> pyval) list"
  query_context :: json

text \<open>The list comprehension of \<^verbatim>\<open>KGQuery.resolve\<close>.\<close>

fun from_kg_instances ::
  "(kgclass \<Rightarrow> raw_instance \<Rightarrow> error + kgobject) \<Rightarrow> kgclass \<Rightarrow> raw_instance list \<Rightarrow> world \<Rightarrow> (error + nat list) \<times> world" where
  "from_kg_instances f cls [] w = (Inr [], w)"
| "from_kg_instances f cls (inst # rest) w =
     (case cache f cls inst w of
        (Inl e, w1) \<Rightarrow> (Inl e, w1)
      | (Inr a, w1) \<Rightarrow>
          (case from_kg_instances f cls rest w1 of
             (Inl e, w2) \<Rightarrow> (Inl e, w2)
           | (Inr objects, w2) \<Rightarrow> (Inr (a # objects), w2)))"

text \<open>The loop \<^verbatim>\<open>for obj in objects: KGObject.cache[obj.id] = obj\<close>.\<close>

fun cache_objects :: "nat list \<Rightarrow> world \<Rightarrow> (error + unit) \<times> world" where
  "cache_objects [] w = (Inr (), w)"
| "cache_objects (a # objects) w =
     (if \<not> hashable (obj_id (heap w ! a)) then (Inl TypeError, w)
      else cache_objects objects (w\<lparr>kg_cache := (kg_cache w)(key_of (obj_id (heap w ! a)) \<mapsto> a)\<rparr>))"

definition KGQuery_resolve ::
  "client \<Rightarrow> (kgclass \<Rightarrow> raw_instance \<Rightarrow> error + kgobject) \<Rightarrow> kgquery \<Rightarrow> world \<Rightarrow> (error + pyval) \<times> world" where
  "KGQuery_resolve c f q w =
     (case call_filter_query c (cls_path (query_cls q)) (query_filter q) (query_context q) w of
        (Inl e, w1) \<Rightarrow> (Inl e, w1)
      | (Inr instances, w1) \<Rightarrow>
          (case from_kg_instances f (query_cls q) instances w1 of
             (Inl e, w2) \<Rightarrow> (Inl e, w2)
           | (Inr objects, w2) \<Rightarrow>
               (case cache_objects objects w2 of
                  (Inl e, w3) \<Rightarrow> (Inl e, w3)
                | (Inr u, w3) \<Rightarrow>
                    (if length instances = 1 then (Inr (PObj (hd objects)), w3)
                     else (Inr (PSeq (map PObj objects)), w3)))))"

section \<open>A factory of the repository\<close>

text \<open>
  \<^verbatim>\<open>needle in haystack\<close> for a string needle: membership in a list, substring of a
  string, key of a dict; TypeError otherwise.
\<close>

fun str_in :: "string \<Rightarrow> json \<Rightarrow> error + bool" where
  "str_in s (JList xs) = Inr (JStr s \<in> set xs)"
| "str_in s (JStr t) = Inr (sublist s t)"
| "str_in s (JDict kvs) = Inr (s \<in> fst ` set kvs)"
| "str_in s _ = Inl TypeError"

text \<open>\<^verbatim>\<open>D.get(k)\<close> and \<^verbatim>\<open>D.get(k, None)\<close>.\<close>

definition py_get :: "(string \<times> json) list \<Rightarrow> string \<Rightarrow> json" where
  "py_get D k = (case map_of D k of None \<Rightarrow> JNull | Some v \<Rightarrow> v)"

text \<open>
  The undecorated \<^verbatim>\<open>Morphology.from_kg_instance\<close> of \<^verbatim>\<open>brainsimulation.py\<close>, with
  \<^verbatim>\<open>Morphology.__init__\<close> for the arguments it passes (no \<^verbatim>\<open>morphology_file\<close>). The class
  \<^verbatim>\<open>Distribution\<close> is imported there but defined nowhere in the sources at hand; it is a
  parameter.
\<close>

definition Morphology_from_kg_instance :: "pyclass \<Rightarrow> kgclass \<Rightarrow> raw_instance \<Rightarrow> error + kgobject" where
  "Morphology_from_kg_instance Distribution cls inst =
     (let D = inst_data inst in
      case py_getitem (JDict D) ''@type'' of
        Inl e \<Rightarrow> Inl e
      | Inr t \<Rightarrow>
     (case str_in ''nsg:Morphology'' t of
        Inl e \<Rightarrow> Inl e
      | Inr False \<Rightarrow> Inl AssertionError
      | Inr True \<Rightarrow>
     (case py_getitem (JDict D) ''name'' of
        Inl e \<Rightarrow> Inl e
      | Inr name \<Rightarrow>
     (case build_kg_object Distribution (py_get D ''distribution'') of
        Inl e \<Rightarrow> Inl e
      | Inr dist \<Rightarrow>
     (case py_getitem (JDict D) ''@id'' of
        Inl e \<Rightarrow> Inl e
      | Inr i \<Rightarrow>
          Inr \<lparr>obj_cls = cls, obj_id = i, obj_instance = Some inst,
               obj_attrs = [(''name'', PJson name), (''cell_type'', PJson (py_get D ''modelOf'')),
                            (''distribution'', dist)]\<rparr>)))))"

section \<open>Invariants of the identity cache and sequences of resolutions\<close>

text \<open>Calls that create a resource.\<close>

fun is_create :: "call \<Rightarrow> bool" where
  "is_create (CreateNewInstance path data) = True"
| "is_create _ = False"

text \<open>
  Every cached address is an object of the heap with a hashable identifier.
\<close>

definition ids_hashable :: "world \<Rightarrow> bool" where
  "ids_hashable w =
     (\<forall>k a. kg_cache w k = Some a \<longrightarrow> a < length (heap w) \<and> hashable (obj_id (heap w ! a)))"

text \<open>
  The cache is closed under identifiers: a cached object is also cached under its own
  identifier. It holds of the empty cache.
\<close>

definition cache_ok :: "world \<Rightarrow> bool" where
  "cache_ok w =
     (\<forall>k a. kg_cache w k = Some a \<longrightarrow>
        a < length (heap w) \<and> hashable (obj_id (heap w ! a)) \<and>
        kg_cache w (key_of (obj_id (heap w ! a))) = Some a)"

text \<open>
  What every factory of \<^verbatim>\<open>brainsimulation.py\<close> does: the object it builds carries the
  identifier of the document (\<^verbatim>\<open>id=D["@id"]\<close>).
\<close>

definition factory_ok :: "(kgclass \<Rightarrow> raw_instance \<Rightarrow> error + kgobject) \<Rightarrow> bool" where
  "factory_ok f = (\<forall>cls inst obj. f cls inst = Inr obj \<longrightarrow> data_id inst = Inr (obj_id obj))"


definition id_of :: "raw_instance \<Rightarrow> json" where
  "id_of inst = (case data_id inst of Inl e \<Rightarrow> JNull | Inr i \<Rightarrow> i)"






section \<open>Example data\<close>

text \<open>
  Two classes of \<^verbatim>\<open>brainsimulation.py\<close>. \<^verbatim>\<open>ValidationResult\<close> has the constructor of
  \<^verbatim>\<open>KGObject\<close> and declares \<^verbatim>\<open>path\<close> and \<^verbatim>\<open>type\<close> only; \<^verbatim>\<open>Morphology\<close> has a constructor
  of its own. Neither declares \<^verbatim>\<open>property_names\<close>, and no other class of the repository
  does.
\<close>

definition ValidationResult :: kgclass where
  "ValidationResult =
     \<lparr>cls_name = ''ValidationResult'',
      cls_path = ''neuralactivity/simulation/validationresult/v0.1.1'',
      cls_type = JList [JStr ''prov:Entity'', JStr ''nsg:ModelValidationResult''],
      property_names = None\<rparr>"

definition Morphology :: kgclass where
  "Morphology =
     \<lparr>cls_name = ''Morphology'',
      cls_path = ''neuralactivity/simulation/morphology/v0.1.1'',
      cls_type = JList [JStr ''prov:Entity'', JStr ''nsg:Morphology''],
      property_names = None\<rparr>"


definition Distribution :: pyclass where
  "Distribution = OtherClass ''Distribution''"

definition Species :: termclass where
  "Species =
     \<lparr>term_name = ''Species'',
      iri_map = Some [(''Rattus norvegicus'', JStr ''obo:NCBITaxon_10116'')]\<rparr>"

text \<open>A document of a morphology, and a transport that answers every listing with \<open>found\<close>.\<close>

definition morphology_doc :: "string \<Rightarrow> raw_instance" where
  "morphology_doc uri =
     \<lparr>inst_data = [(''@id'', JStr uri),
                   (''@type'', JList [JStr ''prov:Entity'', JStr ''nsg:Morphology'']),
                   (''name'', JStr ''cell'')]\<rparr>"

definition kg_client :: "raw_instance list \<Rightarrow> client" where
  "kg_client found =
     \<lparr>filter_query = (\<lambda>hist path filt ctx. Inr found),
      create_new_instance = (\<lambda>hist path data.
        Inr \<lparr>inst_data = (''@id'', JStr ''kg:r1'') # (case data of JDict kvs \<Rightarrow> kvs | _ \<Rightarrow> [])\<rparr>),
      update_instance = (\<lambda>hist inst.
        case inst of
          None \<Rightarrow> Inl (TransportError ''no instance'')
        | Some i \<Rightarrow> Inr \<lparr>inst_data = inst_data i @ [(''nxv:rev'', JInt 2)]\<rparr>),
      instance_from_full_uri = (\<lambda>hist uri.
        Inr \<lparr>inst_data = [(''@id'', uri),
                          (''@type'', JList [JStr ''prov:Entity'', JStr ''nsg:Morphology'']),
                          (''name'', JStr ''cell'')]\<rparr>)\<rparr>"

definition empty_world :: world where
  "empty_world = \<lparr>heap = [], kg_cache = Map.empty, calls = []\<rparr>"

text \<open>
  The world after \<^verbatim>\<open>r = ValidationResult()\<close> and \<^verbatim>\<open>r.name = "result 1"\<close>, the document
  the \<^verbatim>\<open>save\<close> of \<^verbatim>\<open>r\<close> sends, and the world after a first \<^verbatim>\<open>save\<close> against an empty
  store.
\<close>

definition result_object :: "json \<Rightarrow> raw_instance option \<Rightarrow> kgobject" where
  "result_object i inst =
     \<lparr>obj_cls = ValidationResult, obj_id = i, obj_instance = inst,
      obj_attrs = [(''name'', PJson (JStr ''result 1''))]\<rparr>"

definition fresh_world :: world where
  "fresh_world = \<lparr>heap = [result_object JNull None], kg_cache = Map.empty, calls = []\<rparr>"

definition result_doc :: json where
  "result_doc = JDict [(''name'', JStr ''result 1'')]"

definition name_query :: call where
  "name_query =
     FilterQuery ''neuralactivity/simulation/validationresult/v0.1.1''
       (name_filter (PJson (JStr ''result 1''))) name_context"

definition created :: raw_instance where
  "created = \<lparr>inst_data = [(''@id'', JStr ''kg:r1''), (''name'', JStr ''result 1'')]\<rparr>"

definition saved_world :: world where
  "saved_world =
     \<lparr>heap = [result_object (JStr ''kg:r1'') (Some created)],
      kg_cache = [JStr ''kg:r1'' \<mapsto> 0],
      calls = [name_query,
               CreateNewInstance ''neuralactivity/simulation/validationresult/v0.1.1'' result_doc]\<rparr>"

definition stored :: "string \<Rightarrow> raw_instance" where
  "stored uri = \<lparr>inst_data = [(''@id'', JStr uri), (''name'', JStr ''result 1'')]\<rparr>"

text \<open>The world after the morphology \<^verbatim>\<open>kg:m1\<close> has been built by its factory and cached.\<close>

definition morphology_object :: "string \<Rightarrow> kgobject" where
  "morphology_object uri =
     \<lparr>obj_cls = Morphology, obj_id = JStr uri, obj_instance = Some (morphology_doc uri),
      obj_attrs = [(''name'', PJson (JStr ''cell'')), (''cell_type'', PJson JNull),
                   (''distribution'', PJson JNull)]\<rparr>"

definition cached_world :: world where
  "cached_world =
     \<lparr>heap = [morphology_object ''kg:m1''], kg_cache = [JStr ''kg:m1'' \<mapsto> 0], calls = []\<rparr>"

definition morphology_query :: kgquery where
  "morphology_query =
     \<lparr>query_cls = Morphology,
      query_filter = [(''path'', PJson (JStr ''schema:name'')), (''op'', PJson (JStr ''eq'')),
                      (''value'', PJson (JStr ''cell''))],
      query_context = JDict [(''schema'', JStr ''http://schema.org/'')]\<rparr>"

section \<open>Auxiliary facts\<close>

subsection \<open>The constructor\<close>



subsection \<open>What the decorator leaves alone\<close>

lemma cache_calls: "cache f cls inst w = (r, w1) \<Longrightarrow> calls w1 = calls w"
  by (auto simp: cache_def Let_def split: sum.splits if_splits option.splits)

lemma cache_heap: "cache f cls inst w = (r, w1) \<Longrightarrow> \<exists>ys. heap w1 = heap w @ ys"
  by (auto simp: cache_def Let_def split: sum.splits if_splits option.splits)

lemma cache_ids_hashable:
  assumes "ids_hashable w" "cache f cls inst w = (Inr a, w1)"
  shows "ids_hashable w1 \<and> a < length (heap w1) \<and> hashable (obj_id (heap w1 ! a))"
  using assms
  by (auto simp: cache_def Let_def ids_hashable_def nth_append less_Suc_eq
      split: sum.splits if_splits option.splits)

lemma cache_succeeds:
  assumes "data_id inst = Inr i" "hashable i" "f cls inst = Inr obj" "hashable (obj_id obj)"
  shows "\<exists>a w1. cache f cls inst w = (Inr a, w1)"
  using assms by (auto simp: cache_def Let_def split: option.splits)

subsection \<open>The two loops of KGQuery.resolve\<close>

lemma from_kg_instances_ok:
  assumes "ids_hashable w"
    and "\<forall>inst \<in> set instances. \<exists>i obj. data_id inst = Inr i \<and> hashable i \<and>
           f cls inst = Inr obj \<and> hashable (obj_id obj)"
  shows "\<exists>objects w2. from_kg_instances f cls instances w = (Inr objects, w2) \<and> ids_hashable w2
          \<and> length objects = length instances \<and> calls w2 = calls w
          \<and> (\<exists>ys. heap w2 = heap w @ ys)
          \<and> (\<forall>a \<in> set objects. a < length (heap w2) \<and> hashable (obj_id (heap w2 ! a)))"
  using assms
proof (induction instances arbitrary: w)
  case Nil
  then show ?case by simp
next
  case (Cons inst rest)
  from Cons.prems(2) obtain i obj where
    h: "data_id inst = Inr i" "hashable i" "f cls inst = Inr obj" "hashable (obj_id obj)"
    by auto
  from h obtain a w1 where c: "cache f cls inst w = (Inr a, w1)"
    using cache_succeeds[of inst i f cls obj w] by blast
  from cache_ids_hashable[OF Cons.prems(1) c]
  have w1: "ids_hashable w1" "a < length (heap w1)" "hashable (obj_id (heap w1 ! a))"
    by auto
  from Cons.IH[OF w1(1)] Cons.prems(2) obtain objects w2 where
    r: "from_kg_instances f cls rest w1 = (Inr objects, w2)" "ids_hashable w2"
       "length objects = length rest" "calls w2 = calls w1" "\<exists>ys. heap w2 = heap w1 @ ys"
       "\<forall>a \<in> set objects. a < length (heap w2) \<and> hashable (obj_id (heap w2 ! a))"
    by auto
  from r(5) obtain ys where ys: "heap w2 = heap w1 @ ys" by blast
  from cache_heap[OF c] obtain zs where zs: "heap w1 = heap w @ zs" by blast
  have a2: "a < length (heap w2)" "hashable (obj_id (heap w2 ! a))"
    using w1 ys by (simp_all add: nth_append)
  have "from_kg_instances f cls (inst # rest) w = (Inr (a # objects), w2)"
    using c r(1) by simp
  moreover have "calls w2 = calls w" using r(4) cache_calls[OF c] by simp
  moreover have "\<exists>ys. heap w2 = heap w @ ys" using ys zs by simp
  ultimately show ?case using r(2,3,6) a2 by auto
qed

lemma cache_objects_frame:
  "cache_objects objects w = (r, w') \<Longrightarrow> heap w' = heap w \<and> calls w' = calls w"
  by (induction objects arbitrary: w) (auto split: if_splits)

lemma cache_objects_other:
  "cache_objects objects w = (r, w') \<Longrightarrow>
   k \<notin> (\<lambda>a. key_of (obj_id (heap w ! a))) ` set objects \<Longrightarrow>
   kg_cache w' k = kg_cache w k"
proof (induction objects arbitrary: w)
  case Nil
  then show ?case by simp
next
  case (Cons a objects)
  show ?case
  proof (cases "hashable (obj_id (heap w ! a))")
    case False
    then show ?thesis using Cons.prems by simp
  next
    case True
    let ?w1 = "w\<lparr>kg_cache := (kg_cache w)(key_of (obj_id (heap w ! a)) \<mapsto> a)\<rparr>"
    from True Cons.prems(1) have 1: "cache_objects objects ?w1 = (r, w')" by simp
    have "kg_cache w' k = kg_cache ?w1 k"
      using Cons.IH[OF 1] Cons.prems(2) by simp
    then show ?thesis using Cons.prems(2) by simp
  qed
qed

lemma cache_objects_ok:
  assumes "\<forall>a \<in> set objects. hashable (obj_id (heap w ! a))"
  shows "\<exists>w'. cache_objects objects w = (Inr (), w') \<and>
          (\<forall>a \<in> set objects. \<exists>b \<in> set objects.
              key_of (obj_id (heap w ! b)) = key_of (obj_id (heap w ! a)) \<and>
              kg_cache w' (key_of (obj_id (heap w ! a))) = Some b)"
  using assms
proof (induction objects arbitrary: w)
  case Nil
  then show ?case by simp
next
  case (Cons a objects)
  let ?w1 = "w\<lparr>kg_cache := (kg_cache w)(key_of (obj_id (heap w ! a)) \<mapsto> a)\<rparr>"
  have "\<forall>a \<in> set objects. hashable (obj_id (heap ?w1 ! a))" using Cons.prems by simp
  from Cons.IH[OF this] obtain w' where
    w': "cache_objects objects ?w1 = (Inr (), w')"
    and ih: "\<forall>x \<in> set objects. \<exists>b \<in> set objects.
              key_of (obj_id (heap w ! b)) = key_of (obj_id (heap w ! x)) \<and>
              kg_cache w' (key_of (obj_id (heap w ! x))) = Some b"
    by auto
  have run: "cache_objects (a # objects) w = (Inr (), w')" using w' Cons.prems by simp
  have first: "\<exists>b \<in> set (a # objects).
              key_of (obj_id (heap w ! b)) = key_of (obj_id (heap w ! a)) \<and>
              kg_cache w' (key_of (obj_id (heap w ! a))) = Some b"
  proof (cases "key_of (obj_id (heap w ! a)) \<in> (\<lambda>x. key_of (obj_id (heap w ! x))) ` set objects")
    case True
    then obtain x where
      x: "x \<in> set objects" "key_of (obj_id (heap w ! x)) = key_of (obj_id (heap w ! a))"
      by auto
    with ih show ?thesis by (metis list.set_intros(2))
  next
    case False
    then have "kg_cache w' (key_of (obj_id (heap w ! a))) = kg_cache ?w1 (key_of (obj_id (heap w ! a)))"
      using cache_objects_other[OF w', of "key_of (obj_id (heap w ! a))"] by simp
    then show ?thesis by simp
  qed
  show ?case using run first ih by (metis list.set_intros(2) set_ConsD)
qed

subsection \<open>Each resolution keeps the cache closed under identifiers\<close>

lemma cache_ok_calls: "cache_ok (w\<lparr>calls := cs\<rparr>) = cache_ok w"
  by (simp add: cache_ok_def)

lemma cache_step:
  assumes ok: "cache_ok w" and fok: "factory_ok f" and run: "cache f cls inst w = (Inr a, w1)"
  shows "cache_ok w1 \<and> kg_cache w1 (key_of (id_of inst)) = Some a \<and> kg_cache w \<subseteq>\<^sub>m kg_cache w1 \<and>
         (\<exists>ys. heap w1 = heap w @ ys) \<and>
         (\<forall>k. kg_cache w1 k \<noteq> kg_cache w k \<longrightarrow> kg_cache w1 k = Some a)"
proof -
  from run obtain i where i: "data_id inst = Inr i" "hashable i"
    by (auto simp: cache_def split: sum.splits if_splits)
  then have idof: "id_of inst = i" by (simp add: id_of_def)
  show ?thesis
  proof (cases "kg_cache w (key_of i)")
    case (Some b)
    with run i have "w1 = w" "a = b" by (simp_all add: cache_def)
    then show ?thesis using ok Some idof by simp
  next
    case None
    with run i obtain obj where obj: "f cls inst = Inr obj" "hashable (obj_id obj)"
      and a: "a = length (heap w)"
      and w1: "w1 = w\<lparr>heap := heap w @ [obj],
                      kg_cache := (kg_cache w)(key_of (obj_id obj) \<mapsto> length (heap w))\<rparr>"
      by (auto simp: cache_def Let_def split: sum.splits if_splits)
    from fok obj(1) i(1) have oi: "obj_id obj = i" by (auto simp: factory_ok_def)
    have ok1: "cache_ok w1"
      unfolding cache_ok_def
    proof (intro allI impI)
      fix k b assume kb: "kg_cache w1 k = Some b"
      show "b < length (heap w1) \<and> hashable (obj_id (heap w1 ! b)) \<and>
            kg_cache w1 (key_of (obj_id (heap w1 ! b))) = Some b"
      proof (cases "k = key_of i")
        case True
        with kb have "b = length (heap w)" by (simp add: w1 oi)
        then show ?thesis using obj(2) by (simp add: w1 oi)
      next
        case False
        with kb have old: "kg_cache w k = Some b" by (simp add: w1 oi)
        with ok have b: "b < length (heap w)" "hashable (obj_id (heap w ! b))"
          "kg_cache w (key_of (obj_id (heap w ! b))) = Some b"
          by (auto simp: cache_ok_def)
        from b(3) None have "key_of (obj_id (heap w ! b)) \<noteq> key_of i" by auto
        then show ?thesis using b by (simp add: w1 oi nth_append)
      qed
    qed
    have le: "kg_cache w \<subseteq>\<^sub>m kg_cache w1"
      using None by (auto simp: map_le_def w1 oi)
    show ?thesis using ok1 le idof a by (auto simp: w1 oi)
  qed
qed


lemma from_kg_instances_step:
  assumes "cache_ok w" "factory_ok f" "from_kg_instances f cls instances w = (Inr objects, w2)"
  shows "cache_ok w2 \<and> kg_cache w \<subseteq>\<^sub>m kg_cache w2 \<and> (\<exists>ys. heap w2 = heap w @ ys) \<and>
         length objects = length instances \<and> calls w2 = calls w \<and>
         (\<forall>(x, a) \<in> set (zip (map id_of instances) objects). kg_cache w2 (key_of x) = Some a)"
  using assms
proof (induction instances arbitrary: w objects)
  case Nil
  then show ?case by auto
next
  case (Cons inst rest)
  from Cons.prems(3) obtain a w1 objs where
    c: "cache f cls inst w = (Inr a, w1)"
    and r: "from_kg_instances f cls rest w1 = (Inr objs, w2)"
    and o: "objects = a # objs"
    by (auto split: sum.splits prod.splits)
  from cache_step[OF Cons.prems(1,2) c]
  have s: "cache_ok w1" "kg_cache w1 (key_of (id_of inst)) = Some a"
    "kg_cache w \<subseteq>\<^sub>m kg_cache w1" "\<exists>ys. heap w1 = heap w @ ys"
    by auto
  from Cons.IH[OF s(1) Cons.prems(2) r]
  have ih: "cache_ok w2" "kg_cache w1 \<subseteq>\<^sub>m kg_cache w2"
    "\<exists>ys. heap w2 = heap w1 @ ys" "length objs = length rest" "calls w2 = calls w1"
    "\<forall>(x, a) \<in> set (zip (map id_of rest) objs). kg_cache w2 (key_of x) = Some a"
    by auto
  have le: "kg_cache w \<subseteq>\<^sub>m kg_cache w2" using s(3) ih(2) by (rule map_le_trans)
  have a2: "kg_cache w2 (key_of (id_of inst)) = Some a"
    using s(2) ih(2) by (auto simp: map_le_def dom_def)
  have hp: "\<exists>ys. heap w2 = heap w @ ys" using s(4) ih(3) by auto
  have cl: "calls w2 = calls w" using ih(5) cache_calls[OF c] by simp
  show ?case using ih(1,4,6) le a2 hp cl by (auto simp: o)
qed

lemma cache_objects_noop:
  assumes "cache_ok w" "\<forall>a \<in> set objects. \<exists>k. kg_cache w k = Some a"
  shows "cache_objects objects w = (Inr (), w)"
  using assms
proof (induction objects)
  case Nil
  then show ?case by simp
next
  case (Cons a objects)
  from Cons.prems obtain k where "kg_cache w k = Some a" by auto
  with Cons.prems(1) have a: "hashable (obj_id (heap w ! a))"
    "kg_cache w (key_of (obj_id (heap w ! a))) = Some a"
    by (auto simp: cache_ok_def)
  from a(2) have "(kg_cache w)(key_of (obj_id (heap w ! a)) \<mapsto> a) = kg_cache w"
    by (rule map_upd_triv)
  then have "w\<lparr>kg_cache := (kg_cache w)(key_of (obj_id (heap w ! a)) \<mapsto> a)\<rparr> = w" by simp
  then show ?case using a(1) Cons by simp
qed





subsection \<open>Where the objects of a query come from\<close>

lemma cache_ok_ids_hashable: "cache_ok w \<Longrightarrow> ids_hashable w"
  by (auto simp: cache_ok_def ids_hashable_def)

lemma cache_cases:
  assumes run: "cache f cls inst w = (Inr a, w1)"
  shows "((\<exists>i. data_id inst = Inr i \<and> hashable i \<and> kg_cache w (key_of i) = Some a) \<and> w1 = w) \<or>
         ((\<exists>i. data_id inst = Inr i \<and> hashable i \<and> kg_cache w (key_of i) = None) \<and>
          a = length (heap w) \<and>
          (\<exists>obj. f cls inst = Inr obj \<and> hashable (obj_id obj) \<and>
             w1 = w\<lparr>heap := heap w @ [obj],
                    kg_cache := (kg_cache w)(key_of (obj_id obj) \<mapsto> length (heap w))\<rparr>))"
  using run
  by (auto simp: cache_def Let_def split: sum.splits if_splits option.splits)

lemma from_kg_instances_heap:
  "from_kg_instances f cls instances w = (r, w2) \<Longrightarrow> \<exists>ys. heap w2 = heap w @ ys"
proof (induction instances arbitrary: w r w2)
  case Nil
  then show ?case by simp
next
  case (Cons inst rest)
  obtain r1 w1 where c: "cache f cls inst w = (r1, w1)" by (cases "cache f cls inst w")
  from cache_heap[OF c] obtain zs where zs: "heap w1 = heap w @ zs" by blast
  show ?case
  proof (cases r1)
    case (Inl e)
    with c Cons.prems zs show ?thesis by auto
  next
    case (Inr a)
    obtain r2 w3 where m: "from_kg_instances f cls rest w1 = (r2, w3)"
      by (cases "from_kg_instances f cls rest w1")
    from Cons.IH[OF m] obtain ys where ys: "heap w3 = heap w1 @ ys" by blast
    from Cons.prems c Inr m have "w2 = w3" by (auto split: sum.splits)
    with ys zs show ?thesis by simp
  qed
qed

lemma from_kg_instances_provenance:
  assumes "from_kg_instances f cls instances w = (Inr objects, w2)"
  shows "\<forall>a. (a \<in> set objects \<or> (\<exists>k. kg_cache w2 k = Some a)) \<longrightarrow>
           (\<exists>k. kg_cache w k = Some a) \<or>
           (length (heap w) \<le> a \<and> a < length (heap w2) \<and>
            (\<exists>inst \<in> set instances. f cls inst = Inr (heap w2 ! a)))"
  using assms
proof (induction instances arbitrary: w objects)
  case Nil
  then show ?case by auto
next
  case (Cons inst rest)
  from Cons.prems obtain a0 w1 objs where
    c: "cache f cls inst w = (Inr a0, w1)"
    and r: "from_kg_instances f cls rest w1 = (Inr objs, w2)"
    and o: "objects = a0 # objs"
    by (auto split: sum.splits prod.splits)
  note ih = Cons.IH[OF r]
  from from_kg_instances_heap[OF r] obtain ys where ys: "heap w2 = heap w1 @ ys" by blast
  from cache_heap[OF c] obtain zs where zs: "heap w1 = heap w @ zs" by blast
  have a0: "(\<exists>k. kg_cache w k = Some a0) \<or>
            (length (heap w) \<le> a0 \<and> a0 < length (heap w2) \<and> f cls inst = Inr (heap w2 ! a0))"
    using cache_cases[OF c] ys by (auto simp: nth_append)
  have step: "\<And>a. \<exists>k. kg_cache w1 k = Some a \<Longrightarrow> a = a0 \<or> (\<exists>k. kg_cache w k = Some a)"
    using cache_cases[OF c] by (auto split: if_splits)
  show ?case
  proof (intro allI impI)
    fix a assume h: "a \<in> set objects \<or> (\<exists>k. kg_cache w2 k = Some a)"
    show "(\<exists>k. kg_cache w k = Some a) \<or>
           (length (heap w) \<le> a \<and> a < length (heap w2) \<and>
            (\<exists>inst \<in> set (inst # rest). f cls inst = Inr (heap w2 ! a)))"
    proof (cases "a = a0")
      case True
      with a0 show ?thesis by auto
    next
      case False
      with h o have "a \<in> set objs \<or> (\<exists>k. kg_cache w2 k = Some a)" by auto
      with ih have "(\<exists>k. kg_cache w1 k = Some a) \<or>
           (length (heap w1) \<le> a \<and> a < length (heap w2) \<and>
            (\<exists>inst \<in> set rest. f cls inst = Inr (heap w2 ! a)))"
        by blast
      then show ?thesis
      proof
        assume "\<exists>k. kg_cache w1 k = Some a"
        from step[OF this] False show ?thesis by simp
      next
        assume "length (heap w1) \<le> a \<and> a < length (heap w2) \<and>
            (\<exists>inst \<in> set rest. f cls inst = Inr (heap w2 ! a))"
        then show ?thesis using zs by auto
      qed
    qed
  qed
qed

lemma from_kg_instances_new:
  assumes "from_kg_instances f cls instances w = (Inr objects, w2)"
  shows "\<forall>a. length (heap w) \<le> a \<longrightarrow> a < length (heap w2) \<longrightarrow> a \<in> set objects"
  using assms
proof (induction instances arbitrary: w objects)
  case Nil
  then show ?case by auto
next
  case (Cons inst rest)
  from Cons.prems obtain a0 w1 objs where
    c: "cache f cls inst w = (Inr a0, w1)"
    and r: "from_kg_instances f cls rest w1 = (Inr objs, w2)"
    and o: "objects = a0 # objs"
    by (auto split: sum.splits prod.splits)
  note ih = Cons.IH[OF r]
  have l: "length (heap w1) = length (heap w) \<or>
        (length (heap w1) = Suc (length (heap w)) \<and> a0 = length (heap w))"
    using cache_cases[OF c] by auto
  show ?case
  proof (intro allI impI)
    fix a assume a: "length (heap w) \<le> a" "a < length (heap w2)"
    show "a \<in> set objects"
    proof (cases "length (heap w1) \<le> a")
      case True
      with ih a(2) show ?thesis by (simp add: o)
    next
      case False
      with l a(1) have "a = a0" by auto
      then show ?thesis by (simp add: o)
    qed
  qed
qed

lemma cache_frame:
  assumes fok: "factory_ok f" and run: "cache f cls inst w = (Inr a, w1)"
  shows "\<forall>key. key \<noteq> key_of (id_of inst) \<longrightarrow> kg_cache w1 key = kg_cache w key"
proof -
  from cache_cases[OF run] show ?thesis
  proof
    assume "(\<exists>i. data_id inst = Inr i \<and> hashable i \<and> kg_cache w (key_of i) = Some a) \<and> w1 = w"
    then show ?thesis by simp
  next
    assume "(\<exists>i. data_id inst = Inr i \<and> hashable i \<and> kg_cache w (key_of i) = None) \<and>
          a = length (heap w) \<and>
          (\<exists>obj. f cls inst = Inr obj \<and> hashable (obj_id obj) \<and>
             w1 = w\<lparr>heap := heap w @ [obj],
                    kg_cache := (kg_cache w)(key_of (obj_id obj) \<mapsto> length (heap w))\<rparr>)"
    then obtain obj where obj: "f cls inst = Inr obj"
      and w1: "w1 = w\<lparr>heap := heap w @ [obj],
                      kg_cache := (kg_cache w)(key_of (obj_id obj) \<mapsto> length (heap w))\<rparr>"
      by blast
    from fok obj have "data_id inst = Inr (obj_id obj)" by (auto simp: factory_ok_def)
    then have "id_of inst = obj_id obj" by (simp add: id_of_def)
    then show ?thesis by (simp add: w1)
  qed
qed

lemma cache_miss:
  assumes run: "cache f cls inst w = (Inr a, w1)"
    and miss: "kg_cache w (key_of (id_of inst)) = None"
  shows "a = length (heap w) \<and> (\<exists>obj. f cls inst = Inr obj \<and> heap w1 = heap w @ [obj])"
  using cache_cases[OF run] miss by (auto simp: id_of_def)

lemma from_kg_instances_exact:
  assumes "cache_ok w" "factory_ok f" "from_kg_instances f cls instances w = (Inr objects, w2)"
  shows "(\<forall>key. key \<notin> (\<lambda>inst. key_of (id_of inst)) ` set instances \<longrightarrow>
            kg_cache w2 key = kg_cache w key) \<and>
         (\<forall>k < length instances. kg_cache w (key_of (id_of (instances ! k))) = None \<longrightarrow>
            length (heap w) \<le> objects ! k \<and>
            (\<exists>j \<le> k. key_of (id_of (instances ! j)) = key_of (id_of (instances ! k)) \<and>
                     f cls (instances ! j) = Inr (heap w2 ! (objects ! k))))"
  using assms
proof (induction instances arbitrary: w objects)
  case Nil
  then show ?case by auto
next
  case (Cons inst rest)
  from Cons.prems(3) obtain a0 w1 objs where
    c: "cache f cls inst w = (Inr a0, w1)"
    and r: "from_kg_instances f cls rest w1 = (Inr objs, w2)"
    and o: "objects = a0 # objs"
    by (auto split: sum.splits prod.splits)
  from cache_step[OF Cons.prems(1,2) c]
  have s: "cache_ok w1" "kg_cache w1 (key_of (id_of inst)) = Some a0"
    by auto
  from cache_heap[OF c] obtain zs where zs: "heap w1 = heap w @ zs" by blast
  from from_kg_instances_heap[OF r] obtain ys where ys: "heap w2 = heap w1 @ ys" by blast
  note fr = cache_frame[OF Cons.prems(2) c]
  from Cons.IH[OF s(1) Cons.prems(2) r]
  have ih1: "\<forall>key. key \<notin> (\<lambda>inst. key_of (id_of inst)) ` set rest \<longrightarrow>
               kg_cache w2 key = kg_cache w1 key"
    and ih2: "\<forall>k < length rest. kg_cache w1 (key_of (id_of (rest ! k))) = None \<longrightarrow>
            length (heap w1) \<le> objs ! k \<and>
            (\<exists>j \<le> k. key_of (id_of (rest ! j)) = key_of (id_of (rest ! k)) \<and>
                     f cls (rest ! j) = Inr (heap w2 ! (objs ! k)))"
    by blast+
  from from_kg_instances_step[OF s(1) Cons.prems(2) r]
  have st: "kg_cache w1 \<subseteq>\<^sub>m kg_cache w2" "length objs = length rest"
    "\<forall>(x, a) \<in> set (zip (map id_of rest) objs). kg_cache w2 (key_of x) = Some a"
    by auto
  have first: "kg_cache w (key_of (id_of inst)) = None \<Longrightarrow>
               a0 = length (heap w) \<and> f cls inst = Inr (heap w2 ! a0)"
  proof -
    assume "kg_cache w (key_of (id_of inst)) = None"
    from cache_miss[OF c this] obtain obj where
      m: "a0 = length (heap w)" "f cls inst = Inr obj" "heap w1 = heap w @ [obj]"
      by blast
    then have "heap w2 ! a0 = obj" using ys by (simp add: nth_append)
    with m show ?thesis by simp
  qed
  have c1: "\<forall>key. key \<notin> (\<lambda>inst. key_of (id_of inst)) ` set (inst # rest) \<longrightarrow>
            kg_cache w2 key = kg_cache w key"
    using ih1 fr by auto
  have c2: "\<forall>k < length (inst # rest).
            kg_cache w (key_of (id_of ((inst # rest) ! k))) = None \<longrightarrow>
            length (heap w) \<le> objects ! k \<and>
            (\<exists>j \<le> k. key_of (id_of ((inst # rest) ! j)) = key_of (id_of ((inst # rest) ! k)) \<and>
                     f cls ((inst # rest) ! j) = Inr (heap w2 ! (objects ! k)))"
  proof (intro allI impI)
    fix k assume k: "k < length (inst # rest)"
      and none: "kg_cache w (key_of (id_of ((inst # rest) ! k))) = None"
    show "length (heap w) \<le> objects ! k \<and>
            (\<exists>j \<le> k. key_of (id_of ((inst # rest) ! j)) = key_of (id_of ((inst # rest) ! k)) \<and>
                     f cls ((inst # rest) ! j) = Inr (heap w2 ! (objects ! k)))"
    proof (cases k)
      case 0
      with none have "kg_cache w (key_of (id_of inst)) = None" by simp
      from first[OF this] 0 show ?thesis by (simp add: o)
    next
      case (Suc k')
      with k have k': "k' < length rest" by simp
      from Suc none have none': "kg_cache w (key_of (id_of (rest ! k'))) = None" by simp
      show ?thesis
      proof (cases "key_of (id_of (rest ! k')) = key_of (id_of inst)")
        case True
        with none' have "kg_cache w (key_of (id_of inst)) = None" by simp
        from first[OF this] have f0: "a0 = length (heap w)" "f cls inst = Inr (heap w2 ! a0)"
          by simp_all
        from k' st(2) have "(id_of (rest ! k'), objs ! k') \<in> set (zip (map id_of rest) objs)"
          by (auto simp: set_zip intro!: exI[of _ k'])
        with st(3) have "kg_cache w2 (key_of (id_of (rest ! k'))) = Some (objs ! k')" by auto
        moreover from s(2) st(1) have "kg_cache w2 (key_of (id_of inst)) = Some a0"
          by (auto simp: map_le_def dom_def)
        ultimately have "objs ! k' = a0" using True by simp
        then have "length (heap w) \<le> objects ! k \<and>
            key_of (id_of ((inst # rest) ! 0)) = key_of (id_of ((inst # rest) ! k)) \<and>
            f cls ((inst # rest) ! 0) = Inr (heap w2 ! (objects ! k))"
          using f0 True Suc by (simp add: o)
        then show ?thesis by blast
      next
        case False
        with fr none' have "kg_cache w1 (key_of (id_of (rest ! k'))) = None" by simp
        with ih2 k' obtain j where
          j: "length (heap w1) \<le> objs ! k'" "j \<le> k'"
             "key_of (id_of (rest ! j)) = key_of (id_of (rest ! k'))"
             "f cls (rest ! j) = Inr (heap w2 ! (objs ! k'))"
          by blast
        then have "length (heap w) \<le> objects ! k \<and> Suc j \<le> k \<and>
            key_of (id_of ((inst # rest) ! Suc j)) = key_of (id_of ((inst # rest) ! k)) \<and>
            f cls ((inst # rest) ! Suc j) = Inr (heap w2 ! (objects ! k))"
          using zs Suc by (simp add: o)
        then show ?thesis by blast
      qed
    qed
  qed
  from c1 c2 show ?case by blast
qed

subsection \<open>The example data\<close>

lemma factory_ok_Morphology: "factory_ok (Morphology_from_kg_instance D)"
  by (auto simp: factory_ok_def Morphology_from_kg_instance_def data_id_def Let_def
      split: sum.splits bool.splits)

lemma Morphology_from_kg_instance_doc:
  "Morphology_from_kg_instance Distribution Morphology (morphology_doc uri) = Inr (morphology_object uri)"
  by (simp add: Morphology_from_kg_instance_def morphology_doc_def morphology_object_def
      build_kg_object_def py_get_def)

lemma data_id_morphology_doc: "data_id (morphology_doc uri) = Inr (JStr uri)"
  by (simp add: data_id_def morphology_doc_def)


lemma ids_hashable_empty_world: "ids_hashable empty_world"
  by (simp add: ids_hashable_def empty_world_def)

text \<open>
  \<^verbatim>\<open>ValidationResult()\<close> in the empty world gives an object without attributes; the
  assignment \<^verbatim>\<open>r.name = "result 1"\<close> then gives \<open>fresh_world\<close>.
\<close>

lemma KGObject_new_result:
  "KGObject_new ValidationResult JNull None [] empty_world
     = (Inr 0, fresh_world\<lparr>heap := [(result_object JNull None)\<lparr>obj_attrs := []\<rparr>]\<rparr>)"
  by (simp add: KGObject_new_def KGObject_init_def fresh_world_def empty_world_def
      result_object_def)

lemma first_save:
  "KGObject_save (kg_client []) 0 result_doc True fresh_world = (Inr (), saved_world)"
  by (simp add: KGObject_save_def KGObject_exists_def call_filter_query_def
      call_create_new_instance_def fresh_world_def kg_client_def result_doc_def data_id_def
      ValidationResult_def Let_def saved_world_def result_object_def name_query_def created_def)

lemma cache_ok_cached_world: "cache_ok cached_world"
  by (simp add: cache_ok_def cached_world_def morphology_object_def)

lemma KGQuery_resolve_cached:
  "KGQuery_resolve (kg_client [morphology_doc ''kg:m1'', morphology_doc ''kg:m2''])
     (Morphology_from_kg_instance Distribution) morphology_query cached_world
   = (Inr (PSeq [PObj 0, PObj 1]),
      \<lparr>heap = [morphology_object ''kg:m1'', morphology_object ''kg:m2''],
       kg_cache = [JStr ''kg:m1'' \<mapsto> 0, JStr ''kg:m2'' \<mapsto> 1],
       calls = [FilterQuery ''neuralactivity/simulation/morphology/v0.1.1''
                  (query_filter morphology_query) (query_context morphology_query)]\<rparr>)"
proof -
  have l: "call_filter_query (kg_client [morphology_doc ''kg:m1'', morphology_doc ''kg:m2''])
             (cls_path Morphology) (query_filter morphology_query)
             (query_context morphology_query) cached_world
           = (Inr [morphology_doc ''kg:m1'', morphology_doc ''kg:m2''],
              cached_world\<lparr>calls := [FilterQuery ''neuralactivity/simulation/morphology/v0.1.1''
                  (query_filter morphology_query) (query_context morphology_query)]\<rparr>)"
    by (simp add: call_filter_query_def kg_client_def cached_world_def morphology_query_def
        Morphology_def)
  have qc: "query_cls morphology_query = Morphology" by (simp add: morphology_query_def)
  have c1: "cache (Morphology_from_kg_instance Distribution) Morphology (morphology_doc ''kg:m1'')
              (cached_world\<lparr>calls := cs\<rparr>) = (Inr 0, cached_world\<lparr>calls := cs\<rparr>)" for cs
    by (simp add: cache_def data_id_morphology_doc cached_world_def)
  have c2: "cache (Morphology_from_kg_instance Distribution) Morphology (morphology_doc ''kg:m2'')
              (cached_world\<lparr>calls := cs\<rparr>)
            = (Inr (Suc 0), \<lparr>heap = [morphology_object ''kg:m1'', morphology_object ''kg:m2''],
                       kg_cache = [JStr ''kg:m1'' \<mapsto> 0, JStr ''kg:m2'' \<mapsto> Suc 0],
                       calls = cs\<rparr>)" for cs
    by (simp add: cache_def data_id_morphology_doc Morphology_from_kg_instance_doc
        cached_world_def morphology_object_def Let_def)
  have m: "from_kg_instances (Morphology_from_kg_instance Distribution) Morphology
             [morphology_doc ''kg:m1'', morphology_doc ''kg:m2''] (cached_world\<lparr>calls := cs\<rparr>)
           = (Inr [0, Suc 0], \<lparr>heap = [morphology_object ''kg:m1'', morphology_object ''kg:m2''],
                       kg_cache = [JStr ''kg:m1'' \<mapsto> 0, JStr ''kg:m2'' \<mapsto> Suc 0],
                       calls = cs\<rparr>)" for cs
    by (simp add: c1 c2)
  have co: "cache_objects [0, Suc 0] \<lparr>heap = [morphology_object ''kg:m1'', morphology_object ''kg:m2''],
                       kg_cache = [JStr ''kg:m1'' \<mapsto> 0, JStr ''kg:m2'' \<mapsto> Suc 0],
                       calls = cs\<rparr>
            = (Inr (), \<lparr>heap = [morphology_object ''kg:m1'', morphology_object ''kg:m2''],
                       kg_cache = [JStr ''kg:m1'' \<mapsto> 0, JStr ''kg:m2'' \<mapsto> Suc 0],
                       calls = cs\<rparr>)" for cs
    by (simp add: morphology_object_def fun_upd_twist)
  show ?thesis
    unfolding KGQuery_resolve_def qc l
    by (simp add: m co del: from_kg_instances.simps cache_objects.simps)
qed

section \<open>Saving twice (C1)\<close>

text \<open>
  Against a store with no resource of that name, the first \<^verbatim>\<open>save\<close> of the example object
  creates the resource; the second \<^verbatim>\<open>save\<close> then finds the identifier set and sends an
  update: it issues a transport call and replaces the instance held by the object.
\<close>

theorem save_twice_counterexample:
  "KGObject_save (kg_client []) 0 result_doc True fresh_world = (Inr (), saved_world) \<and>
   KGObject_save (kg_client []) 0 result_doc True saved_world =
     (Inr (),
      \<lparr>heap = [result_object (JStr ''kg:r1'')
                 (Some \<lparr>inst_data = [(''@id'', JStr ''kg:r1''), (''name'', JStr ''result 1''),
                                      (''nxv:rev'', JInt 2)]\<rparr>)],
       kg_cache = [JStr ''kg:r1'' \<mapsto> 0],
       calls = calls saved_world @ [UpdateInstance (Some created)]\<rparr>) \<and>
   snd (KGObject_save (kg_client []) 0 result_doc True saved_world) \<noteq> saved_world"
proof -
  have second: "KGObject_save (kg_client []) 0 result_doc True saved_world =
     (Inr (),
      \<lparr>heap = [result_object (JStr ''kg:r1'')
                 (Some \<lparr>inst_data = [(''@id'', JStr ''kg:r1''), (''name'', JStr ''result 1''),
                                      (''nxv:rev'', JInt 2)]\<rparr>)],
       kg_cache = [JStr ''kg:r1'' \<mapsto> 0],
       calls = calls saved_world @ [UpdateInstance (Some created)]\<rparr>)"
    by (simp add: saved_world_def KGObject_save_def call_update_instance_def kg_client_def
        result_object_def created_def)
  have "snd (KGObject_save (kg_client []) 0 result_doc True saved_world) \<noteq> saved_world"
    unfolding second by (simp add: saved_world_def)
  with first_save second show ?thesis by simp
qed

text \<open>
  C1, as the code has it. Take an object without a truthy identifier whose name matches
  nothing in the store, and a transport whose create call answers with a document carrying
  a truthy, hashable identifier. Then two calls of \<^verbatim>\<open>save\<close> with \<^verbatim>\<open>exists_ok=True\<close> in
  succession issue exactly one create call: the first call sends the name query and the
  create call, adopts the returned identifier and instance and enters the object in the
  identity cache. The second call is not a no-op: it issues no create call, but it sends
  one \<^verbatim>\<open>update_instance\<close> call with the stored instance; when the transport answers, the
  answer replaces the stored instance, and when the transport fails, the failure
  propagates and the object is left as the first call left it. The identifier is the same
  after both calls.
\<close>

theorem save_twice:
  assumes fresh: "\<not> truthy (obj_id (heap w ! self))"
    and valid: "self < length (heap w)"
    and name: "map_of (obj_attrs (heap w ! self)) ''name'' = Some name"
    and path: "path = cls_path (obj_cls (heap w ! self))"
    and q: "q = FilterQuery path (name_filter name) name_context"
    and nomatch: "filter_query c (calls w) path (name_filter name) name_context = Inr []"
    and made: "create_new_instance c (calls w @ [q]) path data = Inr inst"
    and ident: "data_id inst = Inr i" "truthy i" "hashable i"
    and w1: "w1 = w\<lparr>calls := calls w @ [q, CreateNewInstance path data],
                   heap := (heap w)[self := (heap w ! self)\<lparr>obj_id := i, obj_instance := Some inst\<rparr>],
                   kg_cache := (kg_cache w)(key_of i \<mapsto> self)\<rparr>"
  shows "KGObject_save c self data True w = (Inr (), w1) \<and>
         (\<forall>inst2. update_instance c (calls w1) (Some inst) = Inr inst2 \<longrightarrow>
            KGObject_save c self data2 True w1 =
              (Inr (), w1\<lparr>calls := calls w1 @ [UpdateInstance (Some inst)],
                          heap := (heap w1)[self := (heap w1 ! self)\<lparr>obj_instance := Some inst2\<rparr>]\<rparr>)) \<and>
         (\<forall>e. update_instance c (calls w1) (Some inst) = Inl e \<longrightarrow>
            KGObject_save c self data2 True w1 =
              (Inl e, w1\<lparr>calls := calls w1 @ [UpdateInstance (Some inst)]\<rparr>)) \<and>
         calls (snd (KGObject_save c self data2 True w1))
           = calls w @ [q, CreateNewInstance path data, UpdateInstance (Some inst)] \<and>
         length (filter is_create (calls (snd (KGObject_save c self data2 True w1))))
           = Suc (length (filter is_create (calls w))) \<and>
         obj_id (heap (snd (KGObject_save c self data2 True w1)) ! self) = i"
proof -
  have first: "KGObject_save c self data True w = (Inr (), w1)"
    using fresh name nomatch made ident
    by (simp add: KGObject_save_def KGObject_exists_def call_filter_query_def
        call_create_new_instance_def path[symmetric] q[symmetric] w1 Let_def)
  have id1: "obj_id (heap w1 ! self) = i" and in1: "obj_instance (heap w1 ! self) = Some inst"
    using valid by (simp_all add: w1)
  have up: "\<And>inst2. update_instance c (calls w1) (Some inst) = Inr inst2 \<Longrightarrow>
            KGObject_save c self data2 True w1 =
              (Inr (), w1\<lparr>calls := calls w1 @ [UpdateInstance (Some inst)],
                          heap := (heap w1)[self := (heap w1 ! self)\<lparr>obj_instance := Some inst2\<rparr>]\<rparr>)"
    using id1 in1 ident(2) by (simp add: KGObject_save_def call_update_instance_def)
  have failed: "\<And>e. update_instance c (calls w1) (Some inst) = Inl e \<Longrightarrow>
            KGObject_save c self data2 True w1 =
              (Inl e, w1\<lparr>calls := calls w1 @ [UpdateInstance (Some inst)]\<rparr>)"
    using id1 in1 ident(2) by (simp add: KGObject_save_def call_update_instance_def)
  have after: "calls (snd (KGObject_save c self data2 True w1))
                 = calls w @ [q, CreateNewInstance path data, UpdateInstance (Some inst)] \<and>
               obj_id (heap (snd (KGObject_save c self data2 True w1)) ! self) = i"
  proof (cases "update_instance c (calls w1) (Some inst)")
    case (Inl e)
    then show ?thesis using failed[OF Inl] id1 by (simp add: w1)
  next
    case (Inr inst2)
    then show ?thesis using up[OF Inr] id1 valid by (simp add: w1)
  qed
  then have cnt: "length (filter is_create (calls (snd (KGObject_save c self data2 True w1))))
           = Suc (length (filter is_create (calls w)))"
    by (simp add: q)
  from first up failed after cnt show ?thesis by blast
qed

theorem save_twice_witness:
  "\<not> truthy (obj_id (heap fresh_world ! 0)) \<and> 0 < length (heap fresh_world) \<and>
   KGObject_save (kg_client []) 0 result_doc True fresh_world = (Inr (), saved_world) \<and>
   calls (snd (KGObject_save (kg_client []) 0 result_doc True saved_world))
     = [name_query,
        CreateNewInstance ''neuralactivity/simulation/validationresult/v0.1.1'' result_doc,
        UpdateInstance (Some created)] \<and>
   length (filter is_create (calls (snd (KGObject_save (kg_client []) 0 result_doc True saved_world))))
     = 1"
proof -
  have h1: "\<not> truthy (obj_id (heap fresh_world ! 0))"
    by (simp add: fresh_world_def result_object_def)
  have h2: "0 < length (heap fresh_world)" by (simp add: fresh_world_def)
  have h3: "map_of (obj_attrs (heap fresh_world ! 0)) ''name'' = Some (PJson (JStr ''result 1''))"
    by (simp add: fresh_world_def result_object_def)
  have h4: "''neuralactivity/simulation/validationresult/v0.1.1''
              = cls_path (obj_cls (heap fresh_world ! 0))"
    by (simp add: fresh_world_def result_object_def ValidationResult_def)
  have h5: "name_query = FilterQuery ''neuralactivity/simulation/validationresult/v0.1.1''
              (name_filter (PJson (JStr ''result 1''))) name_context"
    by (simp add: name_query_def)
  have h6: "filter_query (kg_client []) (calls fresh_world)
              ''neuralactivity/simulation/validationresult/v0.1.1''
              (name_filter (PJson (JStr ''result 1''))) name_context = Inr []"
    by (simp add: kg_client_def)
  have h7: "create_new_instance (kg_client []) (calls fresh_world @ [name_query])
              ''neuralactivity/simulation/validationresult/v0.1.1'' result_doc = Inr created"
    by (simp add: kg_client_def result_doc_def created_def)
  have h8: "data_id created = Inr (JStr ''kg:r1'')" "truthy (JStr ''kg:r1'')"
    "hashable (JStr ''kg:r1'')"
    by (simp_all add: data_id_def created_def)
  have h9: "saved_world = fresh_world
              \<lparr>calls := calls fresh_world @
                 [name_query,
                  CreateNewInstance ''neuralactivity/simulation/validationresult/v0.1.1'' result_doc],
               heap := (heap fresh_world)
                 [0 := (heap fresh_world ! 0)\<lparr>obj_id := JStr ''kg:r1'', obj_instance := Some created\<rparr>],
               kg_cache := (kg_cache fresh_world)(key_of (JStr ''kg:r1'') \<mapsto> 0)\<rparr>"
    by (simp add: saved_world_def fresh_world_def result_object_def)
  have c0: "calls fresh_world = []" by (simp add: fresh_world_def)
  from save_twice[OF h1 h2 h3 h4 h5 h6 h7 h8 h9, of result_doc]
  have r: "KGObject_save (kg_client []) 0 result_doc True fresh_world = (Inr (), saved_world)"
    "calls (snd (KGObject_save (kg_client []) 0 result_doc True saved_world))
       = calls fresh_world @
         [name_query,
          CreateNewInstance ''neuralactivity/simulation/validationresult/v0.1.1'' result_doc,
          UpdateInstance (Some created)]"
    "length (filter is_create (calls (snd (KGObject_save (kg_client []) 0 result_doc True saved_world))))
       = Suc (length (filter is_create (calls fresh_world)))"
    by blast+
  show ?thesis using h1 h2 r by (simp add: c0)
qed

section \<open>The existence check (C3)\<close>

text \<open>
  With two resources of that name in the store, \<^verbatim>\<open>exists\<close> answers True and the object
  adopts the identifier of the first match.
\<close>

theorem exists_two_matches_counterexample:
  "KGObject_exists (kg_client [stored ''kg:r7'', stored ''kg:r8'']) 0 fresh_world =
     (Inr True,
      \<lparr>heap = [result_object (JStr ''kg:r7'') None], kg_cache = Map.empty, calls = [name_query]\<rparr>)"
  by (simp add: KGObject_exists_def call_filter_query_def fresh_world_def kg_client_def
      stored_def data_id_def ValidationResult_def result_object_def name_query_def)

text \<open>
  C3, as the code has it. When the identifier of the object is truthy (set, and not
  empty), \<^verbatim>\<open>exists\<close> answers True and the world is unchanged: no call reaches the transport.
  Otherwise it sends one filter query on the name of the object. When the answer is empty
  it answers False and the object is unchanged. When the answer has at least one match
  (exactly one, or more than one), the object adopts the identifier of the first match
  and the answer is True.
\<close>

theorem KGObject_exists_spec:
  "(truthy (obj_id (heap w ! self)) \<longrightarrow> KGObject_exists c self w = (Inr True, w)) \<and>
   (\<not> truthy (obj_id (heap w ! self)) \<longrightarrow>
    map_of (obj_attrs (heap w ! self)) ''name'' = Some name \<longrightarrow>
      (filter_query c (calls w) (cls_path (obj_cls (heap w ! self))) (name_filter name) name_context
         = Inr [] \<longrightarrow>
         KGObject_exists c self w =
           (Inr False,
            w\<lparr>calls := calls w @
                 [FilterQuery (cls_path (obj_cls (heap w ! self))) (name_filter name) name_context]\<rparr>)) \<and>
      (\<forall>r rs i.
         filter_query c (calls w) (cls_path (obj_cls (heap w ! self))) (name_filter name) name_context
           = Inr (r # rs) \<longrightarrow>
         data_id r = Inr i \<longrightarrow>
         KGObject_exists c self w =
           (Inr True,
            w\<lparr>calls := calls w @
                 [FilterQuery (cls_path (obj_cls (heap w ! self))) (name_filter name) name_context],
              heap := (heap w)[self := (heap w ! self)\<lparr>obj_id := i\<rparr>]\<rparr>)))"
  by (simp add: KGObject_exists_def call_filter_query_def)

theorem KGObject_exists_spec_witness:
  "truthy (obj_id (heap saved_world ! 0)) \<and>
   KGObject_exists (kg_client []) 0 saved_world = (Inr True, saved_world) \<and>
   \<not> truthy (obj_id (heap fresh_world ! 0)) \<and>
   KGObject_exists (kg_client []) 0 fresh_world = (Inr False, fresh_world\<lparr>calls := [name_query]\<rparr>) \<and>
   KGObject_exists (kg_client [stored ''kg:r7'']) 0 fresh_world =
     (Inr True, fresh_world\<lparr>calls := [name_query], heap := [result_object (JStr ''kg:r7'') None]\<rparr>)"
proof -
  have t: "truthy (obj_id (heap saved_world ! 0))"
    by (simp add: saved_world_def result_object_def)
  have f: "\<not> truthy (obj_id (heap fresh_world ! 0))"
    by (simp add: fresh_world_def result_object_def)
  have n: "map_of (obj_attrs (heap fresh_world ! 0)) ''name'' = Some (PJson (JStr ''result 1''))"
    by (simp add: fresh_world_def result_object_def)
  have p: "cls_path (obj_cls (heap fresh_world ! 0))
             = ''neuralactivity/simulation/validationresult/v0.1.1''"
    by (simp add: fresh_world_def result_object_def ValidationResult_def)
  have c0: "calls fresh_world = []" by (simp add: fresh_world_def)
  have h0: "heap fresh_world = [result_object JNull None]" by (simp add: fresh_world_def)
  have e: "filter_query (kg_client []) (calls fresh_world)
             (cls_path (obj_cls (heap fresh_world ! 0)))
             (name_filter (PJson (JStr ''result 1''))) name_context = Inr []"
    by (simp add: kg_client_def)
  have m: "filter_query (kg_client [stored ''kg:r7'']) (calls fresh_world)
             (cls_path (obj_cls (heap fresh_world ! 0)))
             (name_filter (PJson (JStr ''result 1''))) name_context = Inr [stored ''kg:r7'']"
    by (simp add: kg_client_def)
  have d: "data_id (stored ''kg:r7'') = Inr (JStr ''kg:r7'')"
    by (simp add: data_id_def stored_def)
  from KGObject_exists_spec[of saved_world 0 "kg_client []"] t
  have 1: "KGObject_exists (kg_client []) 0 saved_world = (Inr True, saved_world)" by blast
  from KGObject_exists_spec[of fresh_world 0 "kg_client []" "PJson (JStr ''result 1'')"] f n e
  have 2: "KGObject_exists (kg_client []) 0 fresh_world =
             (Inr False,
              fresh_world\<lparr>calls := calls fresh_world @
                 [FilterQuery (cls_path (obj_cls (heap fresh_world ! 0)))
                    (name_filter (PJson (JStr ''result 1''))) name_context]\<rparr>)"
    by blast
  from KGObject_exists_spec[of fresh_world 0 "kg_client [stored ''kg:r7'']"
      "PJson (JStr ''result 1'')"] f n m d
  have 3: "KGObject_exists (kg_client [stored ''kg:r7'']) 0 fresh_world =
             (Inr True,
              fresh_world\<lparr>calls := calls fresh_world @
                 [FilterQuery (cls_path (obj_cls (heap fresh_world ! 0)))
                    (name_filter (PJson (JStr ''result 1''))) name_context],
                heap := (heap fresh_world)
                  [0 := (heap fresh_world ! 0)\<lparr>obj_id := JStr ''kg:r7''\<rparr>]\<rparr>)"
    by blast
  have e2: "KGObject_exists (kg_client []) 0 fresh_world
              = (Inr False, fresh_world\<lparr>calls := [name_query]\<rparr>)"
    using 2 by (simp add: p c0 h0 name_query_def result_object_def ValidationResult_def)
  have e3: "KGObject_exists (kg_client [stored ''kg:r7'']) 0 fresh_world =
     (Inr True, fresh_world\<lparr>calls := [name_query], heap := [result_object (JStr ''kg:r7'') None]\<rparr>)"
    using 3 by (simp add: p c0 h0 name_query_def result_object_def ValidationResult_def)
  from t 1 f e2 e3 show ?thesis by simp
qed

section \<open>Saving what exists already (C4)\<close>

text \<open>
  The example object has no identifier and the store holds a resource of its name. Saving
  with \<^verbatim>\<open>exists_ok=False\<close> raises the conflict and sends no create call, but the identifier
  of the object is \<^verbatim>\<open>kg:r7\<close> afterwards where it was None before.
\<close>

theorem save_conflict_counterexample:
  "obj_id (heap fresh_world ! 0) = JNull \<and>
   KGObject_save (kg_client [stored ''kg:r7'']) 0 result_doc False fresh_world =
     (Inl ResourceExistsError,
      \<lparr>heap = [result_object (JStr ''kg:r7'') None], kg_cache = Map.empty, calls = [name_query]\<rparr>) \<and>
   obj_id (heap (snd (KGObject_save (kg_client [stored ''kg:r7'']) 0 result_doc False fresh_world)) ! 0)
     = JStr ''kg:r7''"
  by (simp add: KGObject_save_def KGObject_exists_def call_filter_query_def fresh_world_def
      kg_client_def stored_def data_id_def ValidationResult_def result_object_def name_query_def)

text \<open>
  C4, as the code has it. For an object whose identifier is unset (not truthy) and whose
  name has at least one match in the store, \<^verbatim>\<open>save\<close> with \<^verbatim>\<open>exists_ok=False\<close> raises the
  ResourceExists error and the only call that reaches the transport is the name query: no
  create call is issued. The identifier of the object is not left as it was: the
  existence check has set it to the identifier of the first match before the error is
  raised.
\<close>

theorem save_conflict:
  assumes "\<not> truthy (obj_id (heap w ! self))"
    and "self < length (heap w)"
    and "map_of (obj_attrs (heap w ! self)) ''name'' = Some name"
    and "filter_query c (calls w) (cls_path (obj_cls (heap w ! self))) (name_filter name) name_context
           = Inr (r # rs)"
    and "data_id r = Inr i"
    and "w' = snd (KGObject_save c self data False w)"
  shows "KGObject_save c self data False w =
           (Inl ResourceExistsError,
            w\<lparr>calls := calls w @
                 [FilterQuery (cls_path (obj_cls (heap w ! self))) (name_filter name) name_context],
              heap := (heap w)[self := (heap w ! self)\<lparr>obj_id := i\<rparr>]\<rparr>) \<and>
         filter is_create (calls w') = filter is_create (calls w) \<and>
         obj_id (heap w' ! self) = i \<and> kg_cache w' = kg_cache w"
  using assms by (simp add: KGObject_save_def KGObject_exists_def call_filter_query_def)

theorem save_conflict_witness:
  "\<not> truthy (obj_id (heap fresh_world ! 0)) \<and>
   fst (KGObject_save (kg_client [stored ''kg:r7'']) 0 result_doc False fresh_world)
     = Inl ResourceExistsError \<and>
   filter is_create
     (calls (snd (KGObject_save (kg_client [stored ''kg:r7'']) 0 result_doc False fresh_world))) = [] \<and>
   obj_id (heap (snd (KGObject_save (kg_client [stored ''kg:r7'']) 0 result_doc False fresh_world)) ! 0)
     = JStr ''kg:r7''"
proof -
  have f: "\<not> truthy (obj_id (heap fresh_world ! 0))"
    by (simp add: fresh_world_def result_object_def)
  have v: "0 < length (heap fresh_world)" by (simp add: fresh_world_def)
  have n: "map_of (obj_attrs (heap fresh_world ! 0)) ''name'' = Some (PJson (JStr ''result 1''))"
    by (simp add: fresh_world_def result_object_def)
  have m: "filter_query (kg_client [stored ''kg:r7'']) (calls fresh_world)
             (cls_path (obj_cls (heap fresh_world ! 0)))
             (name_filter (PJson (JStr ''result 1''))) name_context = Inr (stored ''kg:r7'' # [])"
    by (simp add: kg_client_def)
  have d: "data_id (stored ''kg:r7'') = Inr (JStr ''kg:r7'')"
    by (simp add: data_id_def stored_def)
  have c0: "calls fresh_world = []" by (simp add: fresh_world_def)
  from save_conflict[OF f v n m d refl, of result_doc]
  have r: "fst (KGObject_save (kg_client [stored ''kg:r7'']) 0 result_doc False fresh_world)
             = Inl ResourceExistsError"
    "filter is_create
       (calls (snd (KGObject_save (kg_client [stored ''kg:r7'']) 0 result_doc False fresh_world)))
       = filter is_create (calls fresh_world)"
    "obj_id (heap (snd (KGObject_save (kg_client [stored ''kg:r7'']) 0 result_doc False fresh_world)) ! 0)
       = JStr ''kg:r7''"
    using v by simp_all
  show ?thesis using f r by (simp add: c0)
qed

section \<open>One instance for each identifier (C2)\<close>




section \<open>The caching decorator (C5)\<close>

text \<open>
  C5. For a document whose identifier can be read and hashed, the decorated factory looks
  the identifier up in the identity cache. On a hit it returns the cached object and the
  world is unchanged, whatever the wrapped constructor is: the constructor is not
  consulted. On a miss it calls the wrapped constructor and, when that returns an object
  (with a hashable identifier), puts the object into the heap, enters it in the cache
  under the identifier of the object, and returns it.
\<close>

theorem cache_spec:
  "data_id inst = Inr i \<Longrightarrow> hashable i \<Longrightarrow>
   (\<forall>a. kg_cache w (key_of i) = Some a \<longrightarrow>
        cache f cls inst w = (Inr a, w) \<and> cache g cls inst w = cache f cls inst w) \<and>
   (kg_cache w (key_of i) = None \<longrightarrow>
      (\<forall>obj. f cls inst = Inr obj \<longrightarrow> hashable (obj_id obj) \<longrightarrow>
         cache f cls inst w =
           (Inr (length (heap w)),
            w\<lparr>heap := heap w @ [obj],
              kg_cache := (kg_cache w)(key_of (obj_id obj) \<mapsto> length (heap w))\<rparr>)))"
  by (simp add: cache_def Let_def)

theorem cache_spec_witness:
  "data_id (morphology_doc ''kg:m1'') = Inr (JStr ''kg:m1'') \<and> hashable (JStr ''kg:m1'') \<and>
   kg_cache cached_world (key_of (JStr ''kg:m1'')) = Some 0 \<and>
   cache (\<lambda>cls inst. Inl AssertionError) Morphology (morphology_doc ''kg:m1'') cached_world
     = (Inr 0, cached_world) \<and>
   kg_cache empty_world (key_of (JStr ''kg:m1'')) = None \<and>
   cache (Morphology_from_kg_instance Distribution) Morphology (morphology_doc ''kg:m1'') empty_world
     = (Inr 0, cached_world)"
proof -
  have h: "hashable (JStr ''kg:m1'')" by simp
  have hit: "kg_cache cached_world (key_of (JStr ''kg:m1'')) = Some 0"
    by (simp add: cached_world_def)
  have miss: "kg_cache empty_world (key_of (JStr ''kg:m1'')) = None"
    by (simp add: empty_world_def)
  have ho: "hashable (obj_id (morphology_object ''kg:m1''))"
    by (simp add: morphology_object_def)
  from cache_spec[OF data_id_morphology_doc h, of cached_world "\<lambda>cls inst. Inl AssertionError"
      Morphology "\<lambda>cls inst. Inl AssertionError"] hit
  have 1: "cache (\<lambda>cls inst. Inl AssertionError) Morphology (morphology_doc ''kg:m1'') cached_world
             = (Inr 0, cached_world)"
    by blast
  from cache_spec[OF data_id_morphology_doc h, of empty_world
      "Morphology_from_kg_instance Distribution" Morphology] miss
    Morphology_from_kg_instance_doc[of "''kg:m1''"] ho
  have "cache (Morphology_from_kg_instance Distribution) Morphology (morphology_doc ''kg:m1'') empty_world
          = (Inr (length (heap empty_world)),
             empty_world\<lparr>heap := heap empty_world @ [morphology_object ''kg:m1''],
               kg_cache := (kg_cache empty_world)
                 (key_of (obj_id (morphology_object ''kg:m1'')) \<mapsto> length (heap empty_world))\<rparr>)"
    by blast
  then have 2: "cache (Morphology_from_kg_instance Distribution) Morphology
                  (morphology_doc ''kg:m1'') empty_world = (Inr 0, cached_world)"
    by (simp add: empty_world_def cached_world_def morphology_object_def)
  from data_id_morphology_doc[of "''kg:m1''"] h hit 1 miss 2 show ?thesis by simp
qed

section \<open>Resolving a query (C6)\<close>

text \<open>
  The three shapes of the result: no match gives the empty sequence, one match the object
  itself, two matches a sequence of two objects.
\<close>

lemma KGQuery_resolve_examples:
  "fst (KGQuery_resolve (kg_client []) (Morphology_from_kg_instance Distribution)
          morphology_query empty_world) = Inr (PSeq [])"
  "fst (KGQuery_resolve (kg_client [morphology_doc ''kg:m1''])
          (Morphology_from_kg_instance Distribution) morphology_query empty_world) = Inr (PObj 0)"
  "fst (KGQuery_resolve (kg_client [morphology_doc ''kg:m1'', morphology_doc ''kg:m2''])
          (Morphology_from_kg_instance Distribution) morphology_query empty_world)
     = Inr (PSeq [PObj 0, PObj 1])"
  by (simp_all add: cache_def KGQuery_resolve_def call_filter_query_def data_id_def
      Morphology_from_kg_instance_def build_kg_object_def py_get_def
      kg_client_def morphology_doc_def morphology_query_def Morphology_def empty_world_def Let_def)

text \<open>
  C6. Let the listing of the query answer with \<open>instances\<close>, each a document with a
  hashable identifier on which the factory of the class succeeds, and let the cached
  objects have hashable identifiers. Then \<^verbatim>\<open>resolve\<close> returns, and the listing is the one
  call it sends to the transport. It gives one object for each instance, in order: the
  object itself when there is exactly one instance, the sequence of all the objects
  otherwise, the empty sequence and a sequence of two or more included. Each of these
  objects is one the identity cache held already or one the factory has built from an
  instance of the listing; the heap grows by nothing but the objects returned; and each
  object is in the identity cache under its identifier afterwards (where two of them carry
  the same identifier, the cache holds one of them under it).

  When the cache is closed under identifiers and the factory gives every object the
  identifier of its document, as the factories of the repository do, the objects are
  those of the caching factory, instance by instance: an instance whose identifier the
  cache held gives the cached object; an instance whose identifier it did not hold gives
  the object the factory builds from the first instance of the listing with that
  identifier; afterwards the cache holds each object under the identifier of its
  instance, is closed under identifiers again, and is unchanged at every other key.
\<close>

theorem KGQuery_resolve_spec:
  assumes listed: "filter_query c (calls w) (cls_path (query_cls q)) (query_filter q) (query_context q)
                     = Inr instances"
    and built: "\<forall>inst \<in> set instances. \<exists>i obj. data_id inst = Inr i \<and> hashable i \<and>
                  f (query_cls q) inst = Inr obj \<and> hashable (obj_id obj)"
    and hashed: "ids_hashable w"
  shows "\<exists>objects w'.
           KGQuery_resolve c f q w =
             (Inr (if length instances = 1 then PObj (hd objects) else PSeq (map PObj objects)), w') \<and>
           length objects = length instances \<and>
           calls w' = calls w @
             [FilterQuery (cls_path (query_cls q)) (query_filter q) (query_context q)] \<and>
           (\<exists>new. heap w' = heap w @ new) \<and>
           (\<forall>a \<in> set objects.
               (\<exists>k. kg_cache w k = Some a) \<or>
               (length (heap w) \<le> a \<and>
                (\<exists>inst \<in> set instances. f (query_cls q) inst = Inr (heap w' ! a)))) \<and>
           (\<forall>a. length (heap w) \<le> a \<longrightarrow> a < length (heap w') \<longrightarrow> a \<in> set objects) \<and>
           (\<forall>a \<in> set objects. a < length (heap w') \<and>
               (\<exists>b \<in> set objects.
                  key_of (obj_id (heap w' ! b)) = key_of (obj_id (heap w' ! a)) \<and>
                  kg_cache w' (key_of (obj_id (heap w' ! a))) = Some b)) \<and>
           (cache_ok w \<longrightarrow> factory_ok f \<longrightarrow>
              cache_ok w' \<and>
              (\<forall>k < length instances.
                  kg_cache w' (key_of (id_of (instances ! k))) = Some (objects ! k)) \<and>
              (\<forall>k < length instances. \<forall>a.
                  kg_cache w (key_of (id_of (instances ! k))) = Some a \<longrightarrow> objects ! k = a) \<and>
              (\<forall>k < length instances.
                  kg_cache w (key_of (id_of (instances ! k))) = None \<longrightarrow>
                  length (heap w) \<le> objects ! k \<and>
                  (\<exists>j \<le> k. key_of (id_of (instances ! j)) = key_of (id_of (instances ! k)) \<and>
                           f (query_cls q) (instances ! j) = Inr (heap w' ! (objects ! k)))) \<and>
              (\<forall>key. key \<notin> (\<lambda>inst. key_of (id_of inst)) ` set instances \<longrightarrow>
                  kg_cache w' key = kg_cache w key))"
proof -
  let ?call = "FilterQuery (cls_path (query_cls q)) (query_filter q) (query_context q)"
  let ?w1 = "w\<lparr>calls := calls w @ [?call]\<rparr>"
  have h1: "ids_hashable ?w1" using hashed by (simp add: ids_hashable_def)
  from from_kg_instances_ok[of ?w1 instances f "query_cls q"] h1 built obtain objects w2 where
    o: "from_kg_instances f (query_cls q) instances ?w1 = (Inr objects, w2)"
       "length objects = length instances" "calls w2 = calls ?w1"
       "\<forall>a \<in> set objects. a < length (heap w2) \<and> hashable (obj_id (heap w2 ! a))"
    by blast
  from o(4) have "\<forall>a \<in> set objects. hashable (obj_id (heap w2 ! a))" by blast
  from cache_objects_ok[OF this] obtain w' where
    c: "cache_objects objects w2 = (Inr (), w')"
       "\<forall>a \<in> set objects. \<exists>b \<in> set objects.
              key_of (obj_id (heap w2 ! b)) = key_of (obj_id (heap w2 ! a)) \<and>
              kg_cache w' (key_of (obj_id (heap w2 ! a))) = Some b"
    by blast
  from cache_objects_frame[OF c(1)] have fr: "heap w' = heap w2" "calls w' = calls w2"
    by simp_all
  have res: "KGQuery_resolve c f q w =
             (Inr (if length instances = 1 then PObj (hd objects) else PSeq (map PObj objects)), w')"
    using listed o(1) c(1) by (simp add: KGQuery_resolve_def call_filter_query_def)
  have cl: "calls w' = calls w @ [?call]" using fr(2) o(3) by simp
  from from_kg_instances_heap[OF o(1)] have hp: "\<exists>new. heap w' = heap w @ new"
    using fr(1) by simp
  have prov: "\<forall>a \<in> set objects.
               (\<exists>k. kg_cache w k = Some a) \<or>
               (length (heap w) \<le> a \<and>
                (\<exists>inst \<in> set instances. f (query_cls q) inst = Inr (heap w' ! a)))"
    using from_kg_instances_provenance[OF o(1)] fr(1) by auto
  have new: "\<forall>a. length (heap w) \<le> a \<longrightarrow> a < length (heap w') \<longrightarrow> a \<in> set objects"
    using from_kg_instances_new[OF o(1)] fr(1) by simp
  have ins: "\<forall>a \<in> set objects. a < length (heap w') \<and>
               (\<exists>b \<in> set objects.
                  key_of (obj_id (heap w' ! b)) = key_of (obj_id (heap w' ! a)) \<and>
                  kg_cache w' (key_of (obj_id (heap w' ! a))) = Some b)"
    using c(2) o(4) fr(1) by simp
  have closed: "cache_ok w' \<and>
              (\<forall>k < length instances.
                  kg_cache w' (key_of (id_of (instances ! k))) = Some (objects ! k)) \<and>
              (\<forall>k < length instances. \<forall>a.
                  kg_cache w (key_of (id_of (instances ! k))) = Some a \<longrightarrow> objects ! k = a) \<and>
              (\<forall>k < length instances.
                  kg_cache w (key_of (id_of (instances ! k))) = None \<longrightarrow>
                  length (heap w) \<le> objects ! k \<and>
                  (\<exists>j \<le> k. key_of (id_of (instances ! j)) = key_of (id_of (instances ! k)) \<and>
                           f (query_cls q) (instances ! j) = Inr (heap w' ! (objects ! k)))) \<and>
              (\<forall>key. key \<notin> (\<lambda>inst. key_of (id_of inst)) ` set instances \<longrightarrow>
                  kg_cache w' key = kg_cache w key)"
    if ok: "cache_ok w" and fok: "factory_ok f"
  proof -
    have ok1: "cache_ok ?w1" using ok by (simp add: cache_ok_calls)
    from from_kg_instances_step[OF ok1 fok o(1)]
    have s: "cache_ok w2" "kg_cache ?w1 \<subseteq>\<^sub>m kg_cache w2"
      "\<forall>(x, a) \<in> set (zip (map id_of instances) objects). kg_cache w2 (key_of x) = Some a"
      by auto
    have inc: "\<forall>k < length instances.
                 kg_cache w2 (key_of (id_of (instances ! k))) = Some (objects ! k)"
    proof (intro allI impI)
      fix k assume k: "k < length instances"
      then have "(id_of (instances ! k), objects ! k) \<in> set (zip (map id_of instances) objects)"
        using o(2) by (auto simp: set_zip intro!: exI[of _ k])
      with s(3) show "kg_cache w2 (key_of (id_of (instances ! k))) = Some (objects ! k)" by auto
    qed
    have "\<forall>a \<in> set objects. \<exists>k. kg_cache w2 k = Some a"
    proof
      fix a assume "a \<in> set objects"
      then obtain n where n: "n < length objects" "objects ! n = a"
        by (auto simp: in_set_conv_nth)
      with inc o(2) show "\<exists>k. kg_cache w2 k = Some a" by auto
    qed
    from cache_objects_noop[OF s(1) this] c(1) have w12: "w' = w2" by simp
    have hit: "\<forall>k < length instances. \<forall>a.
                  kg_cache w (key_of (id_of (instances ! k))) = Some a \<longrightarrow> objects ! k = a"
    proof (intro allI impI)
      fix k a assume k: "k < length instances"
        and a: "kg_cache w (key_of (id_of (instances ! k))) = Some a"
      from a s(2) have "kg_cache w2 (key_of (id_of (instances ! k))) = Some a"
        by (auto simp: map_le_def dom_def)
      with inc k show "objects ! k = a" by simp
    qed
    from from_kg_instances_exact[OF ok1 fok o(1)]
    have ex: "\<forall>key. key \<notin> (\<lambda>inst. key_of (id_of inst)) ` set instances \<longrightarrow>
                kg_cache w2 key = kg_cache w key"
      "\<forall>k < length instances. kg_cache w (key_of (id_of (instances ! k))) = None \<longrightarrow>
            length (heap w) \<le> objects ! k \<and>
            (\<exists>j \<le> k. key_of (id_of (instances ! j)) = key_of (id_of (instances ! k)) \<and>
                     f (query_cls q) (instances ! j) = Inr (heap w2 ! (objects ! k)))"
      by simp_all
    show ?thesis using s(1) inc hit ex unfolding w12 by blast
  qed
  from res o(2) cl hp prov new ins closed show ?thesis by blast
qed

theorem KGQuery_resolve_spec_witness:
  "ids_hashable cached_world \<and> cache_ok cached_world \<and>
   factory_ok (Morphology_from_kg_instance Distribution) \<and>
   kg_cache cached_world (key_of (id_of (morphology_doc ''kg:m1''))) = Some 0 \<and>
   kg_cache cached_world (key_of (id_of (morphology_doc ''kg:m2''))) = None \<and>
   KGQuery_resolve (kg_client [morphology_doc ''kg:m1'', morphology_doc ''kg:m2''])
     (Morphology_from_kg_instance Distribution) morphology_query cached_world
   = (Inr (PSeq [PObj 0, PObj 1]),
      \<lparr>heap = [morphology_object ''kg:m1'', morphology_object ''kg:m2''],
       kg_cache = [JStr ''kg:m1'' \<mapsto> 0, JStr ''kg:m2'' \<mapsto> 1],
       calls = [FilterQuery ''neuralactivity/simulation/morphology/v0.1.1''
                  (query_filter morphology_query) (query_context morphology_query)]\<rparr>) \<and>
   (\<exists>w'. snd (KGQuery_resolve (kg_client [morphology_doc ''kg:m1'', morphology_doc ''kg:m2''])
                (Morphology_from_kg_instance Distribution) morphology_query cached_world) = w' \<and>
      kg_cache w' (key_of (id_of (morphology_doc ''kg:m1''))) = Some 0 \<and>
      kg_cache w' (key_of (id_of (morphology_doc ''kg:m2''))) = Some 1 \<and>
      Morphology_from_kg_instance Distribution Morphology (morphology_doc ''kg:m2'')
        = Inr (heap w' ! 1))"
proof -
  let ?K = "kg_client [morphology_doc ''kg:m1'', morphology_doc ''kg:m2'']"
  let ?F = "Morphology_from_kg_instance Distribution"
  let ?ds = "[morphology_doc ''kg:m1'', morphology_doc ''kg:m2'']"
  have l: "filter_query ?K (calls cached_world) (cls_path (query_cls morphology_query))
             (query_filter morphology_query) (query_context morphology_query) = Inr ?ds"
    by (simp add: kg_client_def)
  have qc: "query_cls morphology_query = Morphology" by (simp add: morphology_query_def)
  have b: "\<forall>inst \<in> set ?ds.
             \<exists>i obj. data_id inst = Inr i \<and> hashable i \<and>
               ?F (query_cls morphology_query) inst = Inr obj \<and> hashable (obj_id obj)"
    by (simp add: qc data_id_morphology_doc Morphology_from_kg_instance_doc morphology_object_def)
  have ok: "cache_ok cached_world" by (rule cache_ok_cached_world)
  have h: "ids_hashable cached_world" using ok by (rule cache_ok_ids_hashable)
  have fok: "factory_ok ?F" by (rule factory_ok_Morphology)
  have i1: "key_of (id_of (morphology_doc ''kg:m1'')) = JStr ''kg:m1''"
    and i2: "key_of (id_of (morphology_doc ''kg:m2'')) = JStr ''kg:m2''"
    by (simp_all add: id_of_def data_id_morphology_doc)
  have hit: "kg_cache cached_world (key_of (id_of (morphology_doc ''kg:m1''))) = Some 0"
    and miss: "kg_cache cached_world (key_of (id_of (morphology_doc ''kg:m2''))) = None"
    by (simp_all add: i1 i2 cached_world_def)
  from KGQuery_resolve_spec[of ?K cached_world morphology_query ?ds ?F, OF l b h] ok fok
  obtain objects w' where
    r: "KGQuery_resolve ?K ?F morphology_query cached_world =
          (Inr (if length ?ds = 1 then PObj (hd objects) else PSeq (map PObj objects)), w')"
    and n: "length objects = length ?ds"
    and inc: "\<forall>k < length ?ds. kg_cache w' (key_of (id_of (?ds ! k))) = Some (objects ! k)"
    and old: "\<forall>k < length ?ds. \<forall>a.
                kg_cache cached_world (key_of (id_of (?ds ! k))) = Some a \<longrightarrow> objects ! k = a"
    and new: "\<forall>k < length ?ds. kg_cache cached_world (key_of (id_of (?ds ! k))) = None \<longrightarrow>
                length (heap cached_world) \<le> objects ! k \<and>
                (\<exists>j \<le> k. key_of (id_of (?ds ! j)) = key_of (id_of (?ds ! k)) \<and>
                   ?F (query_cls morphology_query) (?ds ! j) = Inr (heap w' ! (objects ! k)))"
    by blast
  from r KGQuery_resolve_cached have "map PObj objects = map PObj [0, 1]" by simp
  moreover have "inj PObj" by (simp add: inj_on_def)
  ultimately have o: "objects = [0, 1]" by (rule map_injective)
  from r have s: "snd (KGQuery_resolve ?K ?F morphology_query cached_world) = w'" by simp
  from inc o have k1: "kg_cache w' (key_of (id_of (morphology_doc ''kg:m1''))) = Some 0"
    and k2: "kg_cache w' (key_of (id_of (morphology_doc ''kg:m2''))) = Some 1"
    by (auto simp: less_Suc_eq)
  from new[rule_format, of 1] miss
  have "\<exists>j \<le> 1. key_of (id_of (?ds ! j)) = key_of (id_of (?ds ! 1)) \<and>
                   ?F (query_cls morphology_query) (?ds ! j) = Inr (heap w' ! (objects ! 1))"
    by simp
  then obtain j where j: "j \<le> 1" "key_of (id_of (?ds ! j)) = key_of (id_of (?ds ! 1))"
    "?F (query_cls morphology_query) (?ds ! j) = Inr (heap w' ! (objects ! 1))"
    by blast
  have "j = 1"
  proof (rule ccontr)
    assume "j \<noteq> 1"
    with j(1) have "j = 0" by simp
    with j(2) show False by (simp add: i1 i2)
  qed
  with j(3) o qc have f2: "?F Morphology (morphology_doc ''kg:m2'') = Inr (heap w' ! 1)"
    by simp
  from h ok fok hit miss KGQuery_resolve_cached s k1 k2 f2 show ?thesis by blast
qed

section \<open>The cardinality normalizer (C7)\<close>

text \<open>
  For a class that is neither an ontology term nor a \<^verbatim>\<open>KGObject\<close>, the empty list is
  accepted: the class is looked at inside the loop over the items only.
\<close>

theorem build_kg_object_counterexample:
  "build_kg_object (OtherClass ''Distribution'') (JList []) = Inr (PSeq [])"
  by (simp add: build_kg_object_def items_of_def)

text \<open>
  C7, as the code has it. \<^verbatim>\<open>build_kg_object\<close> maps None to None. For a \<^verbatim>\<open>KGObject\<close> class
  it maps one mapping with an identifier to one proxy for that identifier, a list of two
  such entries to a sequence of two proxies, and a \<^verbatim>\<open>@list\<close> wrapper around one entry to
  the result for the bare entry (for any class). It raises ValueError when the input is a
  boolean, a number or a string, whatever the class; and when the class is neither an
  ontology term nor a \<^verbatim>\<open>KGObject\<close> and the input holds at least one item (a non-empty
  list, a mapping without \<^verbatim>\<open>@list\<close>, a wrapper around a non-empty list). For such a class
  and an empty list it raises nothing and returns the empty sequence.
\<close>

theorem build_kg_object_spec:
  "build_kg_object cls JNull = Inr (PJson JNull) \<and>
   (map_of kvs ''@list'' = None \<longrightarrow> map_of kvs ''@id'' = Some i \<longrightarrow>
      build_kg_object (KGObjectClass kc) (JDict kvs) = Inr (PProxy \<lparr>proxy_cls = kc, proxy_id = i\<rparr>)) \<and>
   (py_getitem e1 ''@id'' = Inr i1 \<longrightarrow> py_getitem e2 ''@id'' = Inr i2 \<longrightarrow>
      build_kg_object (KGObjectClass kc) (JList [e1, e2]) =
        Inr (PSeq [PProxy \<lparr>proxy_cls = kc, proxy_id = i1\<rparr>, PProxy \<lparr>proxy_cls = kc, proxy_id = i2\<rparr>])) \<and>
   (map_of kvs ''@list'' = None \<longrightarrow>
      build_kg_object cls (JDict [(''@list'', JList [JDict kvs])]) = build_kg_object cls (JDict kvs)) \<and>
   (data = JBool b \<or> data = JInt n \<or> data = JStr s \<longrightarrow> build_kg_object cls data = Inl ValueError) \<and>
   (data = JList (x # xs) \<or> (data = JDict kvs \<and> map_of kvs ''@list'' = None)
      \<or> data = JDict [(''@list'', JList (x # xs))] \<longrightarrow>
      build_kg_object (OtherClass other) data = Inl ValueError) \<and>
   build_kg_object (OtherClass other) (JList []) = Inr (PSeq [])"
proof -
  have a: "build_kg_object cls JNull = Inr (PJson JNull)"
    by (simp add: build_kg_object_def)
  have b: "map_of kvs ''@list'' = None \<Longrightarrow> map_of kvs ''@id'' = Some i \<Longrightarrow>
      build_kg_object (KGObjectClass kc) (JDict kvs) = Inr (PProxy \<lparr>proxy_cls = kc, proxy_id = i\<rparr>)"
    by (simp add: build_kg_object_def items_of_def build_item_def)
  have c: "py_getitem e1 ''@id'' = Inr i1 \<Longrightarrow> py_getitem e2 ''@id'' = Inr i2 \<Longrightarrow>
      build_kg_object (KGObjectClass kc) (JList [e1, e2]) =
        Inr (PSeq [PProxy \<lparr>proxy_cls = kc, proxy_id = i1\<rparr>, PProxy \<lparr>proxy_cls = kc, proxy_id = i2\<rparr>])"
    by (simp add: build_kg_object_def items_of_def build_item_def)
  have d: "map_of kvs ''@list'' = None \<Longrightarrow>
      build_kg_object cls (JDict [(''@list'', JList [JDict kvs])]) = build_kg_object cls (JDict kvs)"
    by (simp add: build_kg_object_def items_of_def)
  have e: "data = JBool b \<or> data = JInt n \<or> data = JStr s \<Longrightarrow>
      build_kg_object cls data = Inl ValueError"
    by (auto simp add: build_kg_object_def items_of_def)
  have f: "data = JList (x # xs) \<or> (data = JDict kvs \<and> map_of kvs ''@list'' = None)
      \<or> data = JDict [(''@list'', JList (x # xs))] \<Longrightarrow>
      build_kg_object (OtherClass other) data = Inl ValueError"
    by (auto simp add: build_kg_object_def items_of_def build_item_def)
  have g: "build_kg_object (OtherClass other) (JList []) = Inr (PSeq [])"
    by (simp add: build_kg_object_def items_of_def)
  from a b c d e f g show ?thesis by blast
qed

theorem build_kg_object_spec_witness:
  "build_kg_object (KGObjectClass Morphology) (JDict [(''@id'', JStr ''kg:m1'')])
     = Inr (PProxy \<lparr>proxy_cls = Morphology, proxy_id = JStr ''kg:m1''\<rparr>) \<and>
   build_kg_object (KGObjectClass Morphology)
       (JList [JDict [(''@id'', JStr ''kg:m1'')], JDict [(''@id'', JStr ''kg:m2'')]])
     = Inr (PSeq [PProxy \<lparr>proxy_cls = Morphology, proxy_id = JStr ''kg:m1''\<rparr>,
                  PProxy \<lparr>proxy_cls = Morphology, proxy_id = JStr ''kg:m2''\<rparr>]) \<and>
   build_kg_object (KGObjectClass Morphology) (JDict [(''@list'', JList [JDict [(''@id'', JStr ''kg:m1'')]])])
     = Inr (PProxy \<lparr>proxy_cls = Morphology, proxy_id = JStr ''kg:m1''\<rparr>) \<and>
   build_kg_object (KGObjectClass Morphology) (JStr ''kg:m1'') = Inl ValueError \<and>
   build_kg_object (OtherClass ''Distribution'') (JDict [(''@id'', JStr ''kg:m1'')]) = Inl ValueError"
proof -
  have l: "map_of [(''@id'', JStr ''kg:m1'')] ''@list'' = None" by simp
  have i: "map_of [(''@id'', JStr ''kg:m1'')] ''@id'' = Some (JStr ''kg:m1'')" by simp
  have g1: "py_getitem (JDict [(''@id'', JStr ''kg:m1'')]) ''@id'' = Inr (JStr ''kg:m1'')" by simp
  have g2: "py_getitem (JDict [(''@id'', JStr ''kg:m2'')]) ''@id'' = Inr (JStr ''kg:m2'')" by simp
  note s = build_kg_object_spec[where cls="KGObjectClass Morphology"
      and kvs="[(''@id'', JStr ''kg:m1'')]" and i="JStr ''kg:m1''" and kc=Morphology
      and ?e1.0="JDict [(''@id'', JStr ''kg:m1'')]" and ?i1.0="JStr ''kg:m1''"
      and ?e2.0="JDict [(''@id'', JStr ''kg:m2'')]" and ?i2.0="JStr ''kg:m2''"
      and data="JStr ''kg:m1''" and s="''kg:m1''"]
  note t = build_kg_object_spec[where kvs="[(''@id'', JStr ''kg:m1'')]"
      and data="JDict [(''@id'', JStr ''kg:m1'')]" and other="''Distribution''"]
  from s l i have 1: "build_kg_object (KGObjectClass Morphology) (JDict [(''@id'', JStr ''kg:m1'')])
     = Inr (PProxy \<lparr>proxy_cls = Morphology, proxy_id = JStr ''kg:m1''\<rparr>)"
    by blast
  from s g1 g2 have 2: "build_kg_object (KGObjectClass Morphology)
       (JList [JDict [(''@id'', JStr ''kg:m1'')], JDict [(''@id'', JStr ''kg:m2'')]])
     = Inr (PSeq [PProxy \<lparr>proxy_cls = Morphology, proxy_id = JStr ''kg:m1''\<rparr>,
                  PProxy \<lparr>proxy_cls = Morphology, proxy_id = JStr ''kg:m2''\<rparr>])"
    by blast
  from s l have 3: "build_kg_object (KGObjectClass Morphology)
       (JDict [(''@list'', JList [JDict [(''@id'', JStr ''kg:m1'')]])])
     = build_kg_object (KGObjectClass Morphology) (JDict [(''@id'', JStr ''kg:m1'')])"
    by blast
  from s have 4: "build_kg_object (KGObjectClass Morphology) (JStr ''kg:m1'') = Inl ValueError"
    by blast
  from t l have 5: "build_kg_object (OtherClass ''Distribution'') (JDict [(''@id'', JStr ''kg:m1'')])
     = Inl ValueError"
    by blast
  from 1 2 3 4 5 show ?thesis by simp
qed

section \<open>Ontology terms (C8)\<close>

text \<open>
  C8. \<^verbatim>\<open>from_jsonld\<close> maps None to None. An encoded value is what \<^verbatim>\<open>to_jsonld\<close> gives for
  a term of the class, whether the term was built with an identifier or with the
  identifier the table of the class holds for its label: decoding it and encoding the
  result gives the same two fields back. The same holds for every mapping with a label
  and a truthy identifier, whatever else the mapping holds; in general the two fields of
  a mapping come back exactly when its identifier is truthy or is the entry of the table
  for its label, which is the case for every encoded value.
\<close>

theorem OntologyTerm_roundtrip:
  "from_jsonld cls JNull = Inr None \<and>
   (map_of kvs ''label'' = Some l \<longrightarrow> map_of kvs ''@id'' = Some i \<longrightarrow>
      (decode_encode cls (JDict kvs) = Inr (Some (JDict [(''@id'', i), (''label'', l)])))
       = (truthy i \<or> iri_lookup cls l = Inr i)) \<and>
   (OntologyTerm_init cls l i = Inr t \<longrightarrow> decode_encode cls (to_jsonld t) = Inr (Some (to_jsonld t)))"
  by (auto simp add: decode_encode_def from_jsonld_def OntologyTerm_init_def to_jsonld_def
      split: sum.splits option.splits if_splits)

theorem OntologyTerm_roundtrip_witness:
  "from_jsonld Species JNull = Inr None \<and> truthy (JStr ''obo:NCBITaxon_10116'') \<and>
   decode_encode Species
       (JDict [(''label'', JStr ''Rattus norvegicus''), (''@id'', JStr ''obo:NCBITaxon_10116'')])
     = Inr (Some (JDict [(''@id'', JStr ''obo:NCBITaxon_10116''), (''label'', JStr ''Rattus norvegicus'')])) \<and>
   OntologyTerm_init Species (JStr ''Rattus norvegicus'') JNull
     = Inr \<lparr>term_cls = Species, label = JStr ''Rattus norvegicus'',
            iri = JStr ''obo:NCBITaxon_10116''\<rparr> \<and>
   to_jsonld \<lparr>term_cls = Species, label = JStr ''Rattus norvegicus'',
              iri = JStr ''obo:NCBITaxon_10116''\<rparr>
     = JDict [(''@id'', JStr ''obo:NCBITaxon_10116''), (''label'', JStr ''Rattus norvegicus'')] \<and>
   decode_encode Species
       (to_jsonld \<lparr>term_cls = Species, label = JStr ''Rattus norvegicus'',
                   iri = JStr ''obo:NCBITaxon_10116''\<rparr>)
     = Inr (Some (to_jsonld \<lparr>term_cls = Species, label = JStr ''Rattus norvegicus'',
                              iri = JStr ''obo:NCBITaxon_10116''\<rparr>))"
proof -
  have l: "map_of [(''label'', JStr ''Rattus norvegicus''), (''@id'', JStr ''obo:NCBITaxon_10116'')]
             ''label'' = Some (JStr ''Rattus norvegicus'')"
    by simp
  have i: "map_of [(''label'', JStr ''Rattus norvegicus''), (''@id'', JStr ''obo:NCBITaxon_10116'')]
             ''@id'' = Some (JStr ''obo:NCBITaxon_10116'')"
    by simp
  have t: "truthy (JStr ''obo:NCBITaxon_10116'')" by simp
  have b: "OntologyTerm_init Species (JStr ''Rattus norvegicus'') JNull
             = Inr \<lparr>term_cls = Species, label = JStr ''Rattus norvegicus'',
                    iri = JStr ''obo:NCBITaxon_10116''\<rparr>"
    by (simp add: OntologyTerm_init_def iri_lookup_def Species_def)
  have e: "to_jsonld \<lparr>term_cls = Species, label = JStr ''Rattus norvegicus'',
                      iri = JStr ''obo:NCBITaxon_10116''\<rparr>
             = JDict [(''@id'', JStr ''obo:NCBITaxon_10116''), (''label'', JStr ''Rattus norvegicus'')]"
    by (simp add: to_jsonld_def)
  from OntologyTerm_roundtrip[where cls=Species
      and kvs="[(''label'', JStr ''Rattus norvegicus''), (''@id'', JStr ''obo:NCBITaxon_10116'')]"
      and l="JStr ''Rattus norvegicus''" and i="JStr ''obo:NCBITaxon_10116''"] l i t
  have 1: "from_jsonld Species JNull = Inr None"
    and 2: "decode_encode Species
       (JDict [(''label'', JStr ''Rattus norvegicus''), (''@id'', JStr ''obo:NCBITaxon_10116'')])
     = Inr (Some (JDict [(''@id'', JStr ''obo:NCBITaxon_10116''), (''label'', JStr ''Rattus norvegicus'')]))"
    by blast+
  from OntologyTerm_roundtrip[where cls=Species and l="JStr ''Rattus norvegicus''" and i=JNull
      and t="\<lparr>term_cls = Species, label = JStr ''Rattus norvegicus'',
               iri = JStr ''obo:NCBITaxon_10116''\<rparr>"] b
  have 3: "decode_encode Species
       (to_jsonld \<lparr>term_cls = Species, label = JStr ''Rattus norvegicus'',
                   iri = JStr ''obo:NCBITaxon_10116''\<rparr>)
     = Inr (Some (to_jsonld \<lparr>term_cls = Species, label = JStr ''Rattus norvegicus'',
                              iri = JStr ''obo:NCBITaxon_10116''\<rparr>))"
    by blast
  from 1 t 2 b e 3 show ?thesis by blast
qed

section \<open>Unknown properties (C9)\<close>




section \<open>as_list (C10)\<close>

text \<open>
  C10. \<^verbatim>\<open>as_list\<close> returns \<^verbatim>\<open>list(obj)\<close> when \<open>obj\<close> is iterable and the one-element list
  \<^verbatim>\<open>[obj]\<close> when it is not. A string is iterable: it is turned into the list of its
  characters, not wrapped.
\<close>

theorem as_list_spec:
  "(iterable obj \<longrightarrow> (\<exists>L. py_list obj = Inr L \<and> as_list obj = Inr L)) \<and>
   (\<not> iterable obj \<longrightarrow> as_list obj = Inr [obj]) \<and>
   as_list (PJson (JStr s)) = Inr (map (\<lambda>c. PJson (JStr [c])) s)"
proof -
  have a: "iterable obj \<Longrightarrow> \<exists>L. py_list obj = Inr L \<and> as_list obj = Inr L"
    by (induction obj rule: iterable.induct) (simp_all add: as_list_def)
  have b: "\<not> iterable obj \<Longrightarrow> as_list obj = Inr [obj]"
    by (induction obj rule: iterable.induct) (simp_all add: as_list_def)
  have c: "as_list (PJson (JStr s)) = Inr (map (\<lambda>c. PJson (JStr [c])) s)"
    by (simp add: as_list_def comp_def)
  from a b c show ?thesis by blast
qed

theorem as_list_spec_witness:
  "iterable (PSeq [PObj 0, PObj 1]) \<and> as_list (PSeq [PObj 0, PObj 1]) = Inr [PObj 0, PObj 1] \<and>
   \<not> iterable (PObj 0) \<and> as_list (PObj 0) = Inr [PObj 0] \<and>
   as_list (PJson (JStr ''ab'')) = Inr [PJson (JStr ''a''), PJson (JStr ''b'')]"
proof -
  have i: "iterable (PSeq [PObj 0, PObj 1])" by simp
  have n: "\<not> iterable (PObj 0)" by simp
  from as_list_spec[where obj="PSeq [PObj 0, PObj 1]" and s="''ab''"] i
  have 1: "as_list (PSeq [PObj 0, PObj 1]) = Inr [PObj 0, PObj 1]" by auto
  from as_list_spec[where obj="PObj 0" and s="''ab''"] n
  have 2: "as_list (PObj 0) = Inr [PObj 0]"
    and 3: "as_list (PJson (JStr ''ab'')) = Inr [PJson (JStr ''a''), PJson (JStr ''b'')]"
    by auto
  from i n 1 2 3 show ?thesis by simp
qed

end
